theory Spec2Isabelle
  imports Main "HOL-Library.Word"
begin

unbundle bit_operations_syntax

section \<open>Common conventions\<close>

text \<open>
  The two adapters of the repository, \<^verbatim>\<open>HexagonModel\<close> (src/dlr_hexagon/dlr_hexagon.cc) and
  \<^verbatim>\<open>TreeliteModel\<close> (src/dlr_treelite.cc), are embedded function by function. A member
  function \<^verbatim>\<open>Class::Method\<close> becomes the constant \<open>Class_Method\<close>; a data member
  \<^verbatim>\<open>name_\<close> becomes the record field \<open>name\<close> (a trailing underscore is not a legal
  field name here), and the two raw buffers \<^verbatim>\<open>input_\<close> and \<^verbatim>\<open>output_\<close> of the Hexagon
  adapter become \<open>hexagon_input\<close> and \<open>hexagon_output\<close>.

  A failing \<^verbatim>\<open>LOG(FATAL)\<close> or \<^verbatim>\<open>CHECK\<close> is the value \<open>Inl (Fatal msg)\<close>. The error reaches
  the caller as an exception (the repository's test catches the one that
  \<^verbatim>\<open>TreeliteModel::GetInput\<close> raises and goes on), so the adapter outlives a failing call. A
  member function that changes the adapter therefore returns its outcome together with the
  adapter's memory at the moment it returned or raised, and what a failing call has or has
  not written can be stated.

  Integers have the widths of an LP64 platform: \<^verbatim>\<open>size_t\<close> is 64 bits, \<^verbatim>\<open>int\<close> is 32 bits.
  They are modelled as \<open>nat\<close> and \<open>int\<close>, and every conversion or unsigned operation that
  can wrap is written out with \<open>mod\<close>.
\<close>

datatype error = Fatal string

type_synonym byte = "8 word"

text \<open>A raw pointer into caller or backend memory: the cell at each offset.\<close>

type_synonym 'a pointer = "nat \<Rightarrow> 'a"

definition size_t_of_int :: "int \<Rightarrow> nat" where
  \<comment> \<open>conversion of a signed integer to \<^verbatim>\<open>size_t\<close>\<close>
  "size_t_of_int x = nat (x mod 2 ^ 64)"

definition uint32_of_int :: "int \<Rightarrow> nat" where
  \<comment> \<open>\<^verbatim>\<open>static_cast<uint32_t>\<close> of a signed integer\<close>
  "uint32_of_int x = nat (x mod 2 ^ 32)"

definition int64_of_size_t :: "nat \<Rightarrow> int" where
  \<comment> \<open>\<^verbatim>\<open>static_cast<int64_t>\<close> of a \<^verbatim>\<open>size_t\<close>\<close>
  "int64_of_size_t n =
     (if n mod 2 ^ 64 < 2 ^ 63 then int (n mod 2 ^ 64) else int (n mod 2 ^ 64) - 2 ^ 64)"

definition memcpy :: "byte pointer \<Rightarrow> byte pointer \<Rightarrow> nat \<Rightarrow> byte pointer" where
  \<comment> \<open>\<^verbatim>\<open>std::memcpy(dst, src, n)\<close>: the destination afterwards\<close>
  "memcpy dst src n = (\<lambda>k. if k < n then src k else dst k)"

definition EndsWith :: "string \<Rightarrow> string \<Rightarrow> bool" where
  \<comment> \<open>Modelled from the spec: \<^verbatim>\<open>EndsWith\<close> is one of the file-suffix utilities the
      repository keeps outside these sources; the spec describes it as a match of the
      name's suffix against a fixed pattern.\<close>
  "EndsWith mainStr toMatch =
     (length toMatch \<le> length mainStr \<and>
      drop (length mainStr - length toMatch) mainStr = toMatch)"


section \<open>Hexagon adapter: locating the artifact\<close>

record HexagonModelArtifact =
  model_file :: string
  skeleton_file :: string

text \<open>
  The loop of \<^verbatim>\<open>HexagonModel::InitModelArtifact\<close> over the listed file names. The fatal log
  inside the loop ends it.
\<close>

fun HexagonModel_InitModelArtifact_loop ::
  "string \<Rightarrow> string list \<Rightarrow> HexagonModelArtifact \<Rightarrow> error + HexagonModelArtifact" where
  "HexagonModel_InitModelArtifact_loop path [] artifact = Inr artifact"
| "HexagonModel_InitModelArtifact_loop path (filename # filenames) artifact =
     (if EndsWith filename ''_hexagon_model.so'' then
        (if model_file artifact = [] then
           HexagonModel_InitModelArtifact_loop path filenames
             (artifact\<lparr>model_file := filename\<rparr>)
         else Inl (Fatal (''Multiple _hexagon_model.so files under the folder: '' @ path)))
      else if filename = ''libhexagon_nn_skel.so'' then
        HexagonModel_InitModelArtifact_loop path filenames
          (artifact\<lparr>skeleton_file := filename\<rparr>)
      else HexagonModel_InitModelArtifact_loop path filenames artifact)"

text \<open>
  \<^verbatim>\<open>HexagonModel::InitModelArtifact\<close>. The environment's answers are parameters:
  \<open>filenames\<close> is what \<^verbatim>\<open>ListFilesInDirectory(path)\<close> returns and \<open>model_folder_abs\<close> what
  \<^verbatim>\<open>realpath\<close> returns. The result is the artifact stored in \<^verbatim>\<open>model_artifact_\<close> and the
  value written to \<^verbatim>\<open>ADSP_LIBRARY_PATH\<close>, if any.
\<close>

definition HexagonModel_InitModelArtifact ::
  "string list \<Rightarrow> string \<Rightarrow> string \<Rightarrow> error + (HexagonModelArtifact \<times> string option)" where
  "HexagonModel_InitModelArtifact filenames model_folder_abs path =
     (case HexagonModel_InitModelArtifact_loop path filenames
             \<lparr>model_file = [], skeleton_file = []\<rparr> of
        Inl e \<Rightarrow> Inl e
      | Inr artifact \<Rightarrow>
          if model_file artifact = [] then
            Inl (Fatal (''No _hexagon_model.so file found under folder: '' @ path))
          else if skeleton_file artifact = [] then Inr (artifact, None)
          else Inr (artifact, Some model_folder_abs))"

abbreviation hexagon_model_files :: "string list \<Rightarrow> string list" where
  "hexagon_model_files filenames \<equiv>
     filter (\<lambda>filename. EndsWith filename ''_hexagon_model.so'') filenames"



section \<open>Hexagon adapter: state and schema discovery\<close>

text \<open>
  \<^verbatim>\<open>HexagonTensorSpec\<close>: its fields \<^verbatim>\<open>name\<close>, \<^verbatim>\<open>dim\<close>, \<^verbatim>\<open>shape\<close>, \<^verbatim>\<open>bytes\<close> and \<^verbatim>\<open>size\<close>
  carry the prefix \<open>spec_\<close>, since the member functions have parameters of the same names.
\<close>

record HexagonTensorSpec =
  spec_name :: string
  spec_dim :: int
  spec_shape :: "int list"
  spec_bytes :: int
  spec_size :: int

text \<open>
  The members of the base class \<^verbatim>\<open>DLRModel\<close> that the two adapters use. The class is
  declared outside these sources; \<^verbatim>\<open>num_inputs_\<close> and \<^verbatim>\<open>num_outputs_\<close> receive the
  \<^verbatim>\<open>size()\<close> of a vector and are unsigned sizes.
\<close>

record DLRModel =
  num_inputs :: nat
  num_outputs :: nat
  input_names :: "string list"
  input_types :: "string list"

record HexagonModel = DLRModel +
  input_tensors_spec :: "HexagonTensorSpec list"
  output_tensors_spec :: "HexagonTensorSpec list"
  hexagon_input :: "byte pointer"
  hexagon_output :: "byte pointer"
  graph_id :: int

text \<open>
  What a call \<^verbatim>\<open>(*dlr_hexagon_input_spec)(id, &name, &dim, &shape, &length, &bytes)\<close> (or the
  output one) leaves behind: the returned code and the five cells it wrote. The backend's
  entry point is a function from the id to this reply.
\<close>

record hexagon_spec_reply =
  reply_err :: int
  reply_name :: string
  reply_dim :: int
  reply_shape :: "int pointer"
  reply_length :: int
  reply_bytes :: int

text \<open>
  The loop of \<^verbatim>\<open>HexagonModel::GenTensorSpec\<close>, from the current \<^verbatim>\<open>id\<close> (written \<open>id'\<close>).
  It ends only when the backend returns a nonzero code, so it is a partial function:
  \<open>None\<close> is a loop that never ends. \<^verbatim>\<open>std::vector<int>(shape, shape + dim)\<close> copies the
  \<open>dim\<close> cells from \<open>shape\<close> on. The backend is taken to write all five cells when it
  returns 0.
\<close>

partial_function (option) HexagonModel_GenTensorSpec_loop ::
  "(int \<Rightarrow> hexagon_spec_reply) \<Rightarrow> (int \<Rightarrow> hexagon_spec_reply) \<Rightarrow> bool \<Rightarrow> int
     \<Rightarrow> HexagonModel \<Rightarrow> HexagonModel option" where
  "HexagonModel_GenTensorSpec_loop dlr_hexagon_input_spec dlr_hexagon_output_spec isInput id' m =
     (let reply = (if isInput then dlr_hexagon_input_spec id' else dlr_hexagon_output_spec id')
      in if reply_err reply \<noteq> 0 then Some m
         else
           let t_spec = \<lparr>spec_name = reply_name reply,
                         spec_dim = reply_dim reply,
                         spec_shape = map (reply_shape reply) [0..<nat (reply_dim reply)],
                         spec_bytes = reply_bytes reply,
                         spec_size = reply_length reply\<rparr>
           in HexagonModel_GenTensorSpec_loop dlr_hexagon_input_spec dlr_hexagon_output_spec
                isInput (id' + 1)
                (if isInput then
                   m\<lparr>input_tensors_spec := input_tensors_spec m @ [t_spec],
                     input_names := input_names m @ [spec_name t_spec]\<rparr>
                 else m\<lparr>output_tensors_spec := output_tensors_spec m @ [t_spec]\<rparr>))"

definition HexagonModel_GenTensorSpec ::
  "(int \<Rightarrow> hexagon_spec_reply) \<Rightarrow> (int \<Rightarrow> hexagon_spec_reply) \<Rightarrow> bool
     \<Rightarrow> HexagonModel \<Rightarrow> HexagonModel option" where
  "HexagonModel_GenTensorSpec dlr_hexagon_input_spec dlr_hexagon_output_spec isInput m =
     HexagonModel_GenTensorSpec_loop dlr_hexagon_input_spec dlr_hexagon_output_spec isInput 0 m"

definition HexagonModel_InitInputOutputTensorSpecs ::
  "(int \<Rightarrow> hexagon_spec_reply) \<Rightarrow> (int \<Rightarrow> hexagon_spec_reply)
     \<Rightarrow> HexagonModel \<Rightarrow> HexagonModel option" where
  "HexagonModel_InitInputOutputTensorSpecs dlr_hexagon_input_spec dlr_hexagon_output_spec m =
     (case HexagonModel_GenTensorSpec dlr_hexagon_input_spec dlr_hexagon_output_spec True m of
        None \<Rightarrow> None
      | Some m1 \<Rightarrow>
          (case HexagonModel_GenTensorSpec dlr_hexagon_input_spec dlr_hexagon_output_spec False
                  (m1\<lparr>num_inputs := length (input_tensors_spec m1)\<rparr>) of
             None \<Rightarrow> None
           | Some m2 \<Rightarrow> Some (m2\<lparr>num_outputs := length (output_tensors_spec m2)\<rparr>)))"

text \<open>The tensor spec that one successful query yields.\<close>

abbreviation discovered_spec :: "hexagon_spec_reply \<Rightarrow> HexagonTensorSpec" where
  "discovered_spec reply \<equiv>
     \<lparr>spec_name = reply_name reply,
      spec_dim = reply_dim reply,
      spec_shape = map (reply_shape reply) [0..<nat (reply_dim reply)],
      spec_bytes = reply_bytes reply,
      spec_size = reply_length reply\<rparr>"

definition DLRModel_GetNumInputs :: "HexagonModel \<Rightarrow> int" where
  \<comment> \<open>Modelled from the spec: \<^verbatim>\<open>GetNumInputs\<close> belongs to the base class, which is not
      among these sources; the spec has it return the count of input specs that
      construction saved, which is \<^verbatim>\<open>num_inputs_\<close>.\<close>
  "DLRModel_GetNumInputs m = int (num_inputs m)"

definition DLRModel_GetNumOutputs :: "HexagonModel \<Rightarrow> int" where
  \<comment> \<open>Modelled from the spec: as \<open>DLRModel_GetNumInputs\<close>, for \<^verbatim>\<open>num_outputs_\<close>.\<close>
  "DLRModel_GetNumOutputs m = int (num_outputs m)"


section \<open>Hexagon adapter: inputs and outputs\<close>

text \<open>
  \<^verbatim>\<open>HexagonModel::GetInputId\<close>: the scan \<^verbatim>\<open>for (int i = 0; i < num_inputs_; i++)\<close>, from
  the current \<open>i\<close>.
\<close>

function HexagonModel_GetInputId_loop :: "HexagonModel \<Rightarrow> string \<Rightarrow> nat \<Rightarrow> error + nat" where
  "HexagonModel_GetInputId_loop m name i =
     (if i < num_inputs m then
        (if spec_name (input_tensors_spec m ! i) = name then Inr i
         else HexagonModel_GetInputId_loop m name (i + 1))
      else Inl (Fatal (''Input Tensor not found, name: '' @ name)))"
  by pat_completeness auto
termination
  by (relation "measure (\<lambda>(m, name, i). num_inputs m - i)") auto

declare HexagonModel_GetInputId_loop.simps [simp del]

definition HexagonModel_GetInputId :: "HexagonModel \<Rightarrow> string \<Rightarrow> error + nat" where
  "HexagonModel_GetInputId m name = HexagonModel_GetInputId_loop m name 0"

text \<open>
  The shape check of \<^verbatim>\<open>HexagonModel::SetInput\<close>:
  \<^verbatim>\<open>for (int i = 0; i < dim; i++) CHECK_EQ(shape[i], input_tensors_spec_[index].shape[i])\<close>,
  from the current \<open>i\<close>; \<open>None\<close> when every check passed.
\<close>

function HexagonModel_SetInput_loop ::
  "int pointer \<Rightarrow> HexagonTensorSpec \<Rightarrow> int \<Rightarrow> int \<Rightarrow> error option" where
  "HexagonModel_SetInput_loop shape t_spec dim i =
     (if i < dim then
        (if shape (nat i) = spec_shape t_spec ! nat i then
           HexagonModel_SetInput_loop shape t_spec dim (i + 1)
         else Some (Fatal ''Incorrect input shape''))
      else None)"
  by pat_completeness auto
termination
  by (relation "measure (\<lambda>(shape, t_spec, dim, i). nat (dim - i))") auto

declare HexagonModel_SetInput_loop.simps [simp del]

definition HexagonModel_SetInput ::
  "HexagonModel \<Rightarrow> string \<Rightarrow> int pointer \<Rightarrow> byte pointer \<Rightarrow> int
     \<Rightarrow> (error + unit) \<times> HexagonModel" where
  "HexagonModel_SetInput m name shape input dim =
     (case HexagonModel_GetInputId m name of
        Inl e \<Rightarrow> (Inl e, m)
      | Inr index \<Rightarrow>
          if dim \<noteq> spec_dim (input_tensors_spec m ! index) then
            (Inl (Fatal ''Incorrect input dim''), m)
          else
            (case HexagonModel_SetInput_loop shape (input_tensors_spec m ! index) dim 0 of
               Some e \<Rightarrow> (Inl e, m)
             | None \<Rightarrow>
                 (Inr (),
                  m\<lparr>hexagon_input :=
                      memcpy (hexagon_input m) input
                        (size_t_of_int (spec_bytes (input_tensors_spec m ! index)))\<rparr>)))"

text \<open>
  \<^verbatim>\<open>HexagonModel::GetInput\<close> and \<^verbatim>\<open>HexagonModel::GetOutput\<close> write the caller's buffer; the
  result is that buffer afterwards, and the adapter does not change.
\<close>

definition HexagonModel_GetInput ::
  "HexagonModel \<Rightarrow> string \<Rightarrow> byte pointer \<Rightarrow> error + byte pointer" where
  "HexagonModel_GetInput m name input =
     (case HexagonModel_GetInputId m name of
        Inl e \<Rightarrow> Inl e
      | Inr index \<Rightarrow>
          Inr (memcpy input (hexagon_input m)
                 (size_t_of_int (spec_bytes (input_tensors_spec m ! index)))))"

definition CHECK_LT_index :: "int \<Rightarrow> nat \<Rightarrow> bool" where
  \<comment> \<open>Modelled from the spec: \<^verbatim>\<open>CHECK_LT(index, num_outputs_)\<close> compares an \<^verbatim>\<open>int\<close> with a
      member whose declaration is not among these sources. The member receives a vector's
      \<^verbatim>\<open>size()\<close>, so it is an unsigned size and the comparison converts \<open>index\<close> to
      \<^verbatim>\<open>size_t\<close>; the spec describes the check as a bounds check of the index against the
      output-spec count.\<close>
  "CHECK_LT_index index n = (size_t_of_int index < n)"

definition HexagonModel_GetOutput ::
  "HexagonModel \<Rightarrow> int \<Rightarrow> byte pointer \<Rightarrow> error + byte pointer" where
  "HexagonModel_GetOutput m index out =
     (if \<not> CHECK_LT_index index (num_outputs m) then
        Inl (Fatal ''Output index is out of range.'')
      else
        Inr (memcpy out (hexagon_output m)
               (size_t_of_int (spec_bytes (output_tensors_spec m ! size_t_of_int index)))))"


section \<open>Treelite adapter: locating the artifact\<close>

record TreeliteModelArtifact =
  model_lib :: string
  ver_json :: string

text \<open>
  The loop of \<^verbatim>\<open>TreeliteModel::InitModelArtifact\<close>. \<^verbatim>\<open>LIBDLR\<close> (the reserved name of the
  runtime's own library) and \<^verbatim>\<open>LIBEXT\<close> (the platform's dynamic-library suffix) are
  macros defined outside these sources, so they are parameters.
\<close>

fun TreeliteModel_InitModelArtifact_loop ::
  "string \<Rightarrow> string \<Rightarrow> string list \<Rightarrow> TreeliteModelArtifact \<Rightarrow> TreeliteModelArtifact" where
  "TreeliteModel_InitModelArtifact_loop LIBDLR LIBEXT [] artifact = artifact"
| "TreeliteModel_InitModelArtifact_loop LIBDLR LIBEXT (filename # filenames) artifact =
     (if filename \<noteq> LIBDLR \<and> EndsWith filename LIBEXT then
        TreeliteModel_InitModelArtifact_loop LIBDLR LIBEXT filenames
          (artifact\<lparr>model_lib := filename\<rparr>)
      else if filename = ''version.json'' then
        TreeliteModel_InitModelArtifact_loop LIBDLR LIBEXT filenames
          (artifact\<lparr>ver_json := filename\<rparr>)
      else TreeliteModel_InitModelArtifact_loop LIBDLR LIBEXT filenames artifact)"

text \<open>
  \<^verbatim>\<open>TreeliteModel::InitModelArtifact\<close>; \<open>filenames\<close> is what
  \<^verbatim>\<open>ListFilesInDirectories(paths)\<close> returns.
\<close>

definition TreeliteModel_InitModelArtifact ::
  "string \<Rightarrow> string \<Rightarrow> string list \<Rightarrow> string list \<Rightarrow> error + TreeliteModelArtifact" where
  "TreeliteModel_InitModelArtifact LIBDLR LIBEXT filenames paths =
     (let artifact =
            TreeliteModel_InitModelArtifact_loop LIBDLR LIBEXT filenames
              \<lparr>model_lib = [], ver_json = []\<rparr>
      in if model_lib artifact = [] then
           Inl (Fatal ''No valid Treelite model files found under folder(s):'')
         else Inr artifact)"

abbreviation treelite_model_files :: "string \<Rightarrow> string \<Rightarrow> string list \<Rightarrow> string list" where
  "treelite_model_files LIBDLR LIBEXT filenames \<equiv>
     filter (\<lambda>filename. filename \<noteq> LIBDLR \<and> EndsWith filename LIBEXT) filenames"


section \<open>Treelite adapter: state and backend\<close>

text \<open>
  A \<^verbatim>\<open>float\<close> is its IEEE 754 binary32 bit pattern. \<^verbatim>\<open>std::isnan\<close> holds of the patterns
  whose exponent bits are all set and whose fraction is not zero.
\<close>

type_synonym float32 = "32 word"

definition isnan :: "float32 \<Rightarrow> bool" where
  "isnan x = ((x AND 0x7F800000) = 0x7F800000 \<and> (x AND 0x007FFFFF) \<noteq> 0)"

text \<open>
  \<^verbatim>\<open>TreeliteInput\<close>. The element counts of the three vectors are sizes of objects in memory;
  \<^verbatim>\<open>handle\<close> is \<open>None\<close> as long as the backend has stored nothing in it.
\<close>

record TreeliteInput =
  data :: "float32 list"
  col_ind :: "nat list"
  row_ptr :: "nat list"
  num_row :: nat
  num_col :: nat
  handle :: "nat option"

record TreeliteModel = DLRModel +
  treelite_model :: nat
  treelite_num_feature :: nat
  treelite_output_buffer_size :: nat
  treelite_output_size :: nat
  treelite_input :: "TreeliteInput option"
  treelite_output :: "float32 list"

text \<open>
  The entry points of the Treelite C API that the adapter calls. Each returns its status
  code and what it stored through its result pointer. Handles are opaque addresses.
  \<^verbatim>\<open>TreelitePredictorPredictBatch\<close> receives the output buffer and returns the status, the
  buffer's cells afterwards and the result size.
\<close>

record treelite_api =
  TreelitePredictorLoad :: "string \<Rightarrow> int \<Rightarrow> int \<times> nat"
  TreelitePredictorQueryNumFeature :: "nat \<Rightarrow> int \<times> nat"
  TreelitePredictorQueryNumOutputGroup :: "nat \<Rightarrow> int \<times> nat"
  TreelitePredictorPredictInst :: "nat \<Rightarrow> nat \<Rightarrow> int \<Rightarrow> nat \<Rightarrow> int \<times> nat"
  TreeliteAssembleSparseBatch ::
    "float32 list \<Rightarrow> nat list \<Rightarrow> nat list \<Rightarrow> nat \<Rightarrow> nat \<Rightarrow> int \<times> nat"
  TreelitePredictorPredictBatch ::
    "nat \<Rightarrow> nat option \<Rightarrow> int \<Rightarrow> int \<Rightarrow> int \<Rightarrow> float32 list
       \<Rightarrow> int \<times> float32 pointer \<times> nat"
  TreeliteGetLastError :: string

definition CHECK_SHAPE :: "string \<Rightarrow> int \<Rightarrow> int \<Rightarrow> error option" where
  \<comment> \<open>Modelled from the spec: the macro \<^verbatim>\<open>CHECK_SHAPE(msg, value, expected)\<close> is defined
      outside these sources; the spec has \<^verbatim>\<open>SetInput\<close> require \<open>dim == 2\<close>, fatal
      otherwise.\<close>
  "CHECK_SHAPE msg v expected = (if v = expected then None else Some (Fatal msg))"

definition resize :: "'a list \<Rightarrow> nat \<Rightarrow> 'a \<Rightarrow> 'a list" where
  \<comment> \<open>\<^verbatim>\<open>std::vector::resize(n)\<close>: new elements are value-initialised\<close>
  "resize v n z = take n v @ replicate (n - length v) z"

text \<open>
  \<^verbatim>\<open>TreeliteModel::SetupTreeliteModule\<close>. \<open>OMP_NUM_THREADS\<close> is the number read from the
  environment variable of that name, if it is set. The two temporary vectors are passed
  to \<^verbatim>\<open>TreelitePredictorPredictInst\<close> by their sizes.
\<close>

definition TreeliteModel_SetupTreeliteModule ::
  "treelite_api \<Rightarrow> int option \<Rightarrow> TreeliteModelArtifact \<Rightarrow> TreeliteModel
     \<Rightarrow> (error + unit) \<times> TreeliteModel" where
  "TreeliteModel_SetupTreeliteModule api OMP_NUM_THREADS artifact m =
     (let num_worker_threads = (case OMP_NUM_THREADS of Some v \<Rightarrow> v | None \<Rightarrow> - 1);
          m1 = m\<lparr>num_inputs := 1, num_outputs := 1,
                 input_names := input_names m @ [''data''],
                 input_types := input_types m @ [''float32'']\<rparr>;
          (rc1, predictor) = TreelitePredictorLoad api (model_lib artifact) num_worker_threads;
          m2 = m1\<lparr>treelite_model := predictor\<rparr>
      in if rc1 \<noteq> 0 then (Inl (Fatal (TreeliteGetLastError api)), m1)
         else
           let (rc2, num_feature) = TreelitePredictorQueryNumFeature api (treelite_model m2);
               m3 = m2\<lparr>treelite_num_feature := num_feature\<rparr>
           in if rc2 \<noteq> 0 then (Inl (Fatal (TreeliteGetLastError api)), m2)
              else
                let m4 = m3\<lparr>treelite_input := None\<rparr>;
                    (rc3, num_output_class) =
                      TreelitePredictorQueryNumOutputGroup api (treelite_model m4);
                    m5 = m4\<lparr>treelite_output_buffer_size := num_output_class\<rparr>
                in if rc3 \<noteq> 0 then (Inl (Fatal (TreeliteGetLastError api)), m4)
                   else
                     let (rc4, output_size) =
                           TreelitePredictorPredictInst api (treelite_model m5)
                             (treelite_num_feature m5) 0 num_output_class;
                         m6 = m5\<lparr>treelite_output_size := output_size\<rparr>
                     in if rc4 \<noteq> 0 then (Inl (Fatal (TreeliteGetLastError api)), m5)
                        else if \<not> treelite_output_size m6 \<le> num_output_class then
                          (Inl (Fatal ''Precondition violated''), m6)
                        else (Inr (), m6))"


section \<open>Treelite adapter: building the sparse input\<close>

definition row_major_index :: "nat \<Rightarrow> nat \<Rightarrow> nat \<Rightarrow> nat" where
  \<comment> \<open>the index expression \<^verbatim>\<open>i * num_col + j\<close>, computed in \<^verbatim>\<open>size_t\<close>\<close>
  "row_major_index i n_col j = (i * n_col + j) mod 2 ^ 64"

text \<open>
  The inner loop of \<^verbatim>\<open>TreeliteModel::SetInput\<close>,
  \<^verbatim>\<open>for (uint32_t j = 0; j < num_col; ++j)\<close>, from the current \<open>j\<close>, on the input under
  construction. The counter stays below \<open>num_col\<close>, so its increment does not wrap.
\<close>

function TreeliteModel_SetInput_cols ::
  "float32 pointer \<Rightarrow> nat \<Rightarrow> nat \<Rightarrow> nat \<Rightarrow> TreeliteInput \<Rightarrow> TreeliteInput" where
  "TreeliteModel_SetInput_cols input_f i n_col j t =
     (if j < n_col then
        TreeliteModel_SetInput_cols input_f i n_col (j + 1)
          (if \<not> isnan (input_f (row_major_index i n_col j)) then
             t\<lparr>data := data t @ [input_f (row_major_index i n_col j)],
               col_ind := col_ind t @ [j]\<rparr>
           else t)
      else t)"
  by pat_completeness auto
termination
  by (relation "measure (\<lambda>(input_f, i, n_col, j, t). n_col - j)") auto

declare TreeliteModel_SetInput_cols.simps [simp del]

text \<open>
  The outer loop, \<^verbatim>\<open>for (size_t i = 0; i < batch_size; ++i)\<close>, from the current \<open>i\<close>.
\<close>

function TreeliteModel_SetInput_rows ::
  "float32 pointer \<Rightarrow> nat \<Rightarrow> nat \<Rightarrow> nat \<Rightarrow> TreeliteInput \<Rightarrow> TreeliteInput" where
  "TreeliteModel_SetInput_rows input_f batch_size n_col i t =
     (if i < batch_size then
        TreeliteModel_SetInput_rows input_f batch_size n_col (i + 1)
          (let t' = TreeliteModel_SetInput_cols input_f i n_col 0 t
           in t'\<lparr>row_ptr := row_ptr t' @ [length (data t')]\<rparr>)
      else t)"
  by pat_completeness auto
termination
  by (relation "measure (\<lambda>(input_f, batch_size, n_col, i, t). batch_size - i)") auto

declare TreeliteModel_SetInput_rows.simps [simp del]

text \<open>
  \<^verbatim>\<open>TreeliteModel::SetInput\<close>. \<^verbatim>\<open>new TreeliteInput\<close> has empty vectors; \<^verbatim>\<open>new\<close> does not
  return a null pointer, so \<^verbatim>\<open>CHECK(treelite_input_)\<close> after it passes. The three checks
  after the loops are the source's post-conditions. The returned adapter holds the input
  as far as the call built it.
\<close>

definition TreeliteModel_SetInput ::
  "treelite_api \<Rightarrow> TreeliteModel \<Rightarrow> string \<Rightarrow> int pointer \<Rightarrow> float32 pointer \<Rightarrow> int
     \<Rightarrow> (error + unit) \<times> TreeliteModel" where
  "TreeliteModel_SetInput api m name shape input dim =
     (case CHECK_SHAPE ''Mismatch found in input dimension'' dim 2 of
        Some e \<Rightarrow> (Inl e, m)
      | None \<Rightarrow>
          if \<not> size_t_of_int (shape 1) \<le> treelite_num_feature m then
            (Inl (Fatal ''ClientError: Mismatch found in input shape at dimension 1.''), m)
          else
            let batch_size = size_t_of_int (shape 0);
                n_col = uint32_of_int (shape 1);
                t0 = \<lparr>data = [], col_ind = [], row_ptr = [0],
                      num_row = 0, num_col = 0, handle = None\<rparr>;
                t1 = TreeliteModel_SetInput_rows input batch_size n_col 0 t0
            in if length (data t1) \<noteq> length (col_ind t1) then
                 (Inl (Fatal ''Check failed: data.size() == col_ind.size()''),
                  m\<lparr>treelite_input := Some t1\<rparr>)
               else if length (data t1) \<noteq> last (row_ptr t1) then
                 (Inl (Fatal ''Check failed: data.size() == row_ptr.back()''),
                  m\<lparr>treelite_input := Some t1\<rparr>)
               else if length (row_ptr t1) \<noteq> (batch_size + 1) mod 2 ^ 64 then
                 (Inl (Fatal ''Check failed: row_ptr.size() == batch_size + 1''),
                  m\<lparr>treelite_input := Some t1\<rparr>)
               else
                 let t2 = t1\<lparr>num_row := batch_size, num_col := treelite_num_feature m\<rparr>;
                     (rc, h) = TreeliteAssembleSparseBatch api (data t2) (col_ind t2)
                                 (row_ptr t2) batch_size (treelite_num_feature m)
                 in if rc \<noteq> 0 then
                      (Inl (Fatal (TreeliteGetLastError api)),
                       m\<lparr>treelite_input := Some t2\<rparr>)
                    else (Inr (), m\<lparr>treelite_input := Some (t2\<lparr>handle := Some h\<rparr>)\<rparr>))"


text \<open>
  For stating what the loops build: the columns of row \<open>i\<close> of a dense row-major buffer
  with \<open>n_col\<close> columns whose value is not NaN, in ascending order.
\<close>

definition present_columns :: "float32 pointer \<Rightarrow> nat \<Rightarrow> nat \<Rightarrow> nat list" where
  "present_columns input_f n_col i =
     filter (\<lambda>j. \<not> isnan (input_f (i * n_col + j))) [0..<n_col]"


section \<open>Treelite adapter: output shape and prediction\<close>

definition TreeliteModel_GetOutputShape ::
  "TreeliteModel \<Rightarrow> int \<Rightarrow> int pointer \<Rightarrow> int pointer" where
  "TreeliteModel_GetOutputShape m index shape =
     (shape(0 := (case treelite_input m of
                    Some t \<Rightarrow> int64_of_size_t (num_row t)
                  | None \<Rightarrow> - 1)))
       (1 := int64_of_size_t (treelite_output_size m))"

text \<open>
  \<^verbatim>\<open>TreeliteModel::Run\<close>. The product in the \<^verbatim>\<open>resize\<close> is a \<^verbatim>\<open>size_t\<close> product. The
  backend writes its predictions into the resized buffer, whose size it cannot change.
\<close>

definition TreeliteModel_Run ::
  "treelite_api \<Rightarrow> TreeliteModel \<Rightarrow> (error + unit) \<times> TreeliteModel" where
  "TreeliteModel_Run api m =
     (case treelite_input m of
        None \<Rightarrow> (Inl (Fatal ''Check failed: treelite_input_''), m)
      | Some t \<Rightarrow>
          let m1 = m\<lparr>treelite_output :=
                       resize (treelite_output m)
                         ((num_row t * treelite_output_buffer_size m) mod 2 ^ 64) 0\<rparr>;
              (rc, out_result, out_result_size) =
                TreelitePredictorPredictBatch api (treelite_model m1) (handle t) 1 0 0
                  (treelite_output m1);
              m2 = m1\<lparr>treelite_output :=
                        map out_result [0..<length (treelite_output m1)]\<rparr>
          in if rc \<noteq> 0 then (Inl (Fatal (TreeliteGetLastError api)), m2)
             else (Inr (), m2))"

section \<open>Concrete adapters for the examples\<close>

definition cells :: "'a::zero list \<Rightarrow> 'a pointer" where
  \<comment> \<open>memory that starts with the given cells and is zero after them\<close>
  "cells xs k = (if k < length xs then xs ! k else 0)"

definition example_hexagon :: HexagonModel where
  "example_hexagon =
     \<lparr>num_inputs = 2, num_outputs = 1,
      input_names = [''image'', ''mask''], input_types = [],
      input_tensors_spec =
        [\<lparr>spec_name = ''image'', spec_dim = 2, spec_shape = [1, 4],
          spec_bytes = 4, spec_size = 4\<rparr>,
         \<lparr>spec_name = ''mask'', spec_dim = 1, spec_shape = [3],
          spec_bytes = 3, spec_size = 3\<rparr>],
      output_tensors_spec =
        [\<lparr>spec_name = ''scores'', spec_dim = 2, spec_shape = [1, 2],
          spec_bytes = 2, spec_size = 2\<rparr>],
      hexagon_input = cells [], hexagon_output = cells [21, 22, 23],
      graph_id = 1\<rparr>"


definition example_input_spec :: "int \<Rightarrow> hexagon_spec_reply" where
  "example_input_spec k =
     (if k = 0 then
        \<lparr>reply_err = 0, reply_name = ''image'', reply_dim = 2, reply_shape = cells [1, 4],
         reply_length = 4, reply_bytes = 4\<rparr>
      else if k = 1 then
        \<lparr>reply_err = 0, reply_name = ''mask'', reply_dim = 1, reply_shape = cells [3],
         reply_length = 3, reply_bytes = 3\<rparr>
      else
        \<lparr>reply_err = - 1, reply_name = [], reply_dim = 0, reply_shape = cells [],
         reply_length = 0, reply_bytes = 0\<rparr>)"

definition example_output_spec :: "int \<Rightarrow> hexagon_spec_reply" where
  "example_output_spec k =
     (if k = 0 then
        \<lparr>reply_err = 0, reply_name = ''scores'', reply_dim = 2, reply_shape = cells [1, 2],
         reply_length = 2, reply_bytes = 2\<rparr>
      else
        \<lparr>reply_err = - 1, reply_name = [], reply_dim = 0, reply_shape = cells [],
         reply_length = 0, reply_bytes = 0\<rparr>)"

definition example_hexagon_undiscovered :: HexagonModel where
  "example_hexagon_undiscovered =
     \<lparr>num_inputs = 1, num_outputs = 1, input_names = [], input_types = [],
      input_tensors_spec = [], output_tensors_spec = [],
      hexagon_input = cells [], hexagon_output = cells [21, 22, 23],
      graph_id = 1\<rparr>"


text \<open>
  A Treelite backend whose calls all succeed, and an adapter with three features, two
  output groups and an output width of one. The floats used are \<open>1.0 = 0x3F800000\<close>,
  \<open>2.0 = 0x40000000\<close>, \<open>0.5 = 0x3F000000\<close> and the NaN \<open>0x7FC00000\<close>.
\<close>

definition example_api :: treelite_api where
  "example_api =
     \<lparr>TreelitePredictorLoad = (\<lambda>library num_worker_thread. (0, 1)),
      TreelitePredictorQueryNumFeature = (\<lambda>predictor. (0, 3)),
      TreelitePredictorQueryNumOutputGroup = (\<lambda>predictor. (0, 2)),
      TreelitePredictorPredictInst = (\<lambda>predictor n_in pred_margin n_out. (0, 1)),
      TreeliteAssembleSparseBatch = (\<lambda>data col_ind row_ptr n_row n_col. (0, 7)),
      TreelitePredictorPredictBatch =
        (\<lambda>predictor batch batch_sparse verbose pred_margin out_result.
           (0, cells [0x3F000000, 0x3F800000], 2)),
      TreeliteGetLastError = []\<rparr>"

definition example_api_rejecting :: treelite_api where
  \<comment> \<open>the same backend, except that it refuses to assemble a sparse batch\<close>
  "example_api_rejecting =
     example_api\<lparr>TreeliteAssembleSparseBatch := (\<lambda>data col_ind row_ptr n_row n_col. (- 1, 0)),
                  TreeliteGetLastError := ''out of memory''\<rparr>"

definition example_treelite :: TreeliteModel where
  "example_treelite =
     \<lparr>num_inputs = 1, num_outputs = 1, input_names = [''data''], input_types = [''float32''],
      treelite_model = 1, treelite_num_feature = 3, treelite_output_buffer_size = 2,
      treelite_output_size = 1, treelite_input = None, treelite_output = []\<rparr>"

definition example_treelite_new :: TreeliteModel where
  \<comment> \<open>the adapter before \<^verbatim>\<open>SetupTreeliteModule\<close>; against \<open>example_api\<close> it becomes
      \<open>example_treelite\<close>\<close>
  "example_treelite_new =
     \<lparr>num_inputs = 1, num_outputs = 1, input_names = [], input_types = [],
      treelite_model = 0, treelite_num_feature = 0, treelite_output_buffer_size = 0,
      treelite_output_size = 0, treelite_input = None, treelite_output = []\<rparr>"

definition example_dense :: "float32 pointer" where
  \<comment> \<open>two rows of three columns: \<open>1.0, NaN, 2.0\<close> and \<open>NaN, NaN, 0.5\<close>\<close>
  "example_dense =
     cells [0x3F800000, 0x7FC00000, 0x40000000, 0x7FC00000, 0x7FC00000, 0x3F000000]"


section \<open>Proofs: Hexagon artifact location\<close>

lemma EndsWith_nonempty: "EndsWith f s \<Longrightarrow> s \<noteq> [] \<Longrightarrow> f \<noteq> []"
  by (auto simp: EndsWith_def)

lemma hexagon_loop_taken:
  "model_file a \<noteq> [] \<Longrightarrow>
   HexagonModel_InitModelArtifact_loop path fs a =
     (if hexagon_model_files fs = [] then
        Inr (a\<lparr>skeleton_file :=
               if ''libhexagon_nn_skel.so'' \<in> set fs then ''libhexagon_nn_skel.so''
               else skeleton_file a\<rparr>)
      else Inl (Fatal (''Multiple _hexagon_model.so files under the folder: '' @ path)))"
proof (induction fs arbitrary: a)
  case Nil
  then show ?case by simp
next
  case (Cons f fs)
  show ?case
  proof (cases "EndsWith f ''_hexagon_model.so''")
    case True
    with Cons.prems show ?thesis by simp
  next
    case False
    with Cons.prems Cons.IH [of a] Cons.IH [of "a\<lparr>skeleton_file := f\<rparr>"]
    show ?thesis by auto
  qed
qed

lemma hexagon_loop_free:
  "model_file a = [] \<Longrightarrow>
   HexagonModel_InitModelArtifact_loop path fs a =
     (case hexagon_model_files fs of
        [] \<Rightarrow> Inr (a\<lparr>skeleton_file :=
                      if ''libhexagon_nn_skel.so'' \<in> set fs then ''libhexagon_nn_skel.so''
                      else skeleton_file a\<rparr>)
      | [f] \<Rightarrow> Inr (a\<lparr>model_file := f,
                       skeleton_file :=
                         if ''libhexagon_nn_skel.so'' \<in> set fs then ''libhexagon_nn_skel.so''
                         else skeleton_file a\<rparr>)
      | _ \<Rightarrow> Inl (Fatal (''Multiple _hexagon_model.so files under the folder: '' @ path)))"
proof (induction fs arbitrary: a)
  case Nil
  then show ?case by simp
next
  case (Cons f fs)
  show ?case
  proof (cases "EndsWith f ''_hexagon_model.so''")
    case True
    then have ne: "f \<noteq> []" by (auto dest: EndsWith_nonempty)
    have skel: "f \<noteq> ''libhexagon_nn_skel.so''"
      using True by (auto simp: EndsWith_def)
    from True ne skel Cons.prems show ?thesis
      by (simp add: hexagon_loop_taken split: list.splits)
  next
    case False
    with Cons.prems Cons.IH [of a] Cons.IH [of "a\<lparr>skeleton_file := f\<rparr>"]
    show ?thesis by (auto split: list.splits)
  qed
qed

text \<open>
  Claim C5. For every directory listing: when exactly one listed name ends in
  \<^verbatim>\<open>_hexagon_model.so\<close>, \<^verbatim>\<open>HexagonModel::InitModelArtifact\<close> succeeds and records that
  name as the model file; when no name or more than one name ends in the suffix, it fails
  with a fatal log.
\<close>

theorem hexagon_artifact_exactly_one:
  "(length (hexagon_model_files filenames) = 1 \<longrightarrow>
      (\<exists>artifact env.
         HexagonModel_InitModelArtifact filenames model_folder_abs path = Inr (artifact, env) \<and>
         [model_file artifact] = hexagon_model_files filenames)) \<and>
   (length (hexagon_model_files filenames) \<noteq> 1 \<longrightarrow>
      (\<exists>msg. HexagonModel_InitModelArtifact filenames model_folder_abs path = Inl (Fatal msg)))"
proof -
  let ?a0 = "\<lparr>model_file = [], skeleton_file = []\<rparr>"
  have loop: "HexagonModel_InitModelArtifact_loop path filenames ?a0 =
     (case hexagon_model_files filenames of
        [] \<Rightarrow> Inr (?a0\<lparr>skeleton_file :=
                      if ''libhexagon_nn_skel.so'' \<in> set filenames
                      then ''libhexagon_nn_skel.so'' else skeleton_file ?a0\<rparr>)
      | [f] \<Rightarrow> Inr (?a0\<lparr>model_file := f,
                       skeleton_file :=
                         if ''libhexagon_nn_skel.so'' \<in> set filenames
                         then ''libhexagon_nn_skel.so'' else skeleton_file ?a0\<rparr>)
      | _ \<Rightarrow> Inl (Fatal (''Multiple _hexagon_model.so files under the folder: '' @ path)))"
    by (rule hexagon_loop_free) simp
  show ?thesis
  proof (cases "hexagon_model_files filenames")
    case Nil
    then show ?thesis
      unfolding HexagonModel_InitModelArtifact_def loop by simp
  next
    case (Cons f rest)
    note outer = Cons
    show ?thesis
    proof (cases rest)
      case Nil
      have "f \<in> set (hexagon_model_files filenames)" using outer by simp
      then have "EndsWith f ''_hexagon_model.so''" by simp
      then have "f \<noteq> []" by (auto dest: EndsWith_nonempty)
      with outer Nil show ?thesis
        unfolding HexagonModel_InitModelArtifact_def loop by simp
    next
      case (Cons g rest')
      with outer show ?thesis
        unfolding HexagonModel_InitModelArtifact_def loop by simp
    qed
  qed
qed

theorem hexagon_artifact_exactly_one_witness:
  "length (hexagon_model_files [''libhexagon_nn_skel.so'', ''mobilenet_hexagon_model.so'']) = 1 \<and>
   (\<exists>artifact env.
      HexagonModel_InitModelArtifact
          [''libhexagon_nn_skel.so'', ''mobilenet_hexagon_model.so''] ''/opt/model'' ''model''
        = Inr (artifact, env) \<and>
      [model_file artifact] = [''mobilenet_hexagon_model.so'']) \<and>
   length (hexagon_model_files [''a_hexagon_model.so'', ''b_hexagon_model.so'']) \<noteq> 1 \<and>
   (\<exists>msg. HexagonModel_InitModelArtifact
        [''a_hexagon_model.so'', ''b_hexagon_model.so''] ''/opt/model'' ''model''
        = Inl (Fatal msg)) \<and>
   length (hexagon_model_files [''libhexagon_nn_skel.so'']) \<noteq> 1 \<and>
   (\<exists>msg. HexagonModel_InitModelArtifact [''libhexagon_nn_skel.so''] ''/opt/model'' ''model''
        = Inl (Fatal msg))"
proof -
  have one: "hexagon_model_files [''libhexagon_nn_skel.so'', ''mobilenet_hexagon_model.so'']
               = [''mobilenet_hexagon_model.so'']"
    by (simp add: EndsWith_def)
  have two: "length (hexagon_model_files [''a_hexagon_model.so'', ''b_hexagon_model.so'']) \<noteq> 1"
    by (simp add: EndsWith_def)
  have zero: "length (hexagon_model_files [''libhexagon_nn_skel.so'']) \<noteq> 1"
    by (simp add: EndsWith_def)
  from one two zero
    hexagon_artifact_exactly_one
      [of "[''libhexagon_nn_skel.so'', ''mobilenet_hexagon_model.so'']" "''/opt/model''" "''model''"]
    hexagon_artifact_exactly_one
      [of "[''a_hexagon_model.so'', ''b_hexagon_model.so'']" "''/opt/model''" "''model''"]
    hexagon_artifact_exactly_one
      [of "[''libhexagon_nn_skel.so'']" "''/opt/model''" "''model''"]
  show ?thesis by simp
qed

section \<open>Proofs: Treelite artifact location\<close>

lemma treelite_loop_model_lib:
  "model_lib (TreeliteModel_InitModelArtifact_loop LIBDLR LIBEXT fs a) =
     (if treelite_model_files LIBDLR LIBEXT fs = [] then model_lib a
      else last (treelite_model_files LIBDLR LIBEXT fs))"
  by (induction fs arbitrary: a) auto

text \<open>
  What \<^verbatim>\<open>TreeliteModel::InitModelArtifact\<close> does with its listing: each name that is not
  \<^verbatim>\<open>LIBDLR\<close> and ends in \<^verbatim>\<open>LIBEXT\<close> overwrites \<^verbatim>\<open>model_lib\<close>, and the only check after the
  loop is that \<^verbatim>\<open>model_lib\<close> is not empty. So the outcome is decided by the last such name,
  however many there are.
\<close>

lemma TreeliteModel_InitModelArtifact_result:
  "(LIBEXT \<noteq> [] \<and> treelite_model_files LIBDLR LIBEXT filenames \<noteq> [] \<longrightarrow>
      (\<exists>artifact.
         TreeliteModel_InitModelArtifact LIBDLR LIBEXT filenames paths = Inr artifact \<and>
         model_lib artifact = last (treelite_model_files LIBDLR LIBEXT filenames))) \<and>
   (treelite_model_files LIBDLR LIBEXT filenames = [] \<longrightarrow>
      (\<exists>msg. TreeliteModel_InitModelArtifact LIBDLR LIBEXT filenames paths = Inl (Fatal msg)))"
proof -
  have "last (treelite_model_files LIBDLR LIBEXT filenames) \<noteq> []"
    if ext: "LIBEXT \<noteq> []" and ne: "treelite_model_files LIBDLR LIBEXT filenames \<noteq> []"
  proof -
    from ne have "last (treelite_model_files LIBDLR LIBEXT filenames)
        \<in> set (treelite_model_files LIBDLR LIBEXT filenames)"
      by (rule last_in_set)
    then have "EndsWith (last (treelite_model_files LIBDLR LIBEXT filenames)) LIBEXT"
      by simp
    with ext show ?thesis by (auto dest: EndsWith_nonempty)
  qed
  then show ?thesis
    by (simp add: TreeliteModel_InitModelArtifact_def Let_def treelite_loop_model_lib)
qed

text \<open>
  Claim C3. For a listing with two or more files that match the dynamic-library suffix, the
  runtime's own library apart, the Treelite locator is to detect the ambiguity and fail.
  The code does not: on the listing \<^verbatim>\<open>libdlr.so\<close>, \<^verbatim>\<open>first_model.so\<close>, \<^verbatim>\<open>second_model.so\<close>,
  which has two candidates, it returns normally and proceeds with the second. The Hexagon
  locator of the same repository does make the check: on a listing with two model files it
  fails with its fatal log.
\<close>

theorem treelite_artifact_ambiguity_undetected:
  "treelite_model_files ''libdlr.so'' ''.so''
       [''libdlr.so'', ''first_model.so'', ''second_model.so'']
     = [''first_model.so'', ''second_model.so''] \<and>
   TreeliteModel_InitModelArtifact ''libdlr.so'' ''.so''
       [''libdlr.so'', ''first_model.so'', ''second_model.so''] [''model'']
     = Inr \<lparr>model_lib = ''second_model.so'', ver_json = []\<rparr> \<and>
   HexagonModel_InitModelArtifact [''a_hexagon_model.so'', ''b_hexagon_model.so'']
       ''/opt/model'' ''model''
     = Inl (Fatal ''Multiple _hexagon_model.so files under the folder: model'')"
  by (simp add: TreeliteModel_InitModelArtifact_def HexagonModel_InitModelArtifact_def
      EndsWith_def)


section \<open>Proofs: Hexagon inputs and outputs\<close>

lemma size_t_of_int_nat: "0 \<le> x \<Longrightarrow> x < 2 ^ 64 \<Longrightarrow> size_t_of_int x = nat x"
  by (simp add: size_t_of_int_def)

lemma size_t_of_int_neg:
  "- (2 ^ 31) \<le> x \<Longrightarrow> x < 0 \<Longrightarrow> size_t_of_int x = nat (2 ^ 64 + x)"
proof -
  assume a: "- (2 ^ 31) \<le> x" "x < 0"
  have "x mod 2 ^ 64 = (x + 2 ^ 64) mod 2 ^ 64" by simp
  also have "\<dots> = x + 2 ^ 64" using a by (intro mod_pos_pos_trivial) auto
  finally show ?thesis by (simp add: size_t_of_int_def add.commute)
qed

lemma GetInputId_loop_Inr:
  "HexagonModel_GetInputId_loop m name i = Inr index \<Longrightarrow>
     i \<le> index \<and> index < num_inputs m \<and> spec_name (input_tensors_spec m ! index) = name"
proof (induction m name i rule: HexagonModel_GetInputId_loop.induct)
  case (1 m name i)
  note unfold = HexagonModel_GetInputId_loop.simps [of m name i]
  show ?case
  proof (cases "i < num_inputs m")
    case False
    with "1.prems" unfold show ?thesis by simp
  next
    case True
    note lt = True
    show ?thesis
    proof (cases "spec_name (input_tensors_spec m ! i) = name")
      case True
      with lt "1.prems" unfold show ?thesis by simp
    next
      case False
      with lt "1.prems" unfold
      have "HexagonModel_GetInputId_loop m name (i + 1) = Inr index"
        by simp
      with "1.IH" [OF lt False] show ?thesis by simp
    qed
  qed
qed

lemma GetInputId_loop_hexagon_input:
  "HexagonModel_GetInputId_loop (m\<lparr>hexagon_input := b\<rparr>) name i =
   HexagonModel_GetInputId_loop m name i"
proof (induction m name i rule: HexagonModel_GetInputId_loop.induct)
  case (1 m name i)
  note unfold = HexagonModel_GetInputId_loop.simps [of m name i]
    HexagonModel_GetInputId_loop.simps [of "m\<lparr>hexagon_input := b\<rparr>" name i]
  show ?case
  proof (cases "i < num_inputs m \<and> spec_name (input_tensors_spec m ! i) \<noteq> name")
    case True
    with "1.IH" have "HexagonModel_GetInputId_loop (m\<lparr>hexagon_input := b\<rparr>) name (i + 1) =
        HexagonModel_GetInputId_loop m name (i + 1)"
      by simp
    with True unfold show ?thesis by simp
  next
    case False
    with unfold show ?thesis by auto
  qed
qed

lemma SetInput_loop_result:
  "0 \<le> i \<Longrightarrow>
   HexagonModel_SetInput_loop shape t dim i =
     (if \<forall>k. i \<le> k \<and> k < dim \<longrightarrow> shape (nat k) = spec_shape t ! nat k then None
      else Some (Fatal ''Incorrect input shape''))"
proof (induction shape t dim i rule: HexagonModel_SetInput_loop.induct)
  case (1 shape t dim i)
  note unfold = HexagonModel_SetInput_loop.simps [of shape t dim i]
  show ?case
  proof (cases "i < dim")
    case False
    with unfold show ?thesis by simp
  next
    case True
    note lt = True
    show ?thesis
    proof (cases "shape (nat i) = spec_shape t ! nat i")
      case False
      with lt "1.prems" unfold show ?thesis by auto
    next
      case True
      have split: "(\<forall>k. i \<le> k \<and> k < dim \<longrightarrow> shape (nat k) = spec_shape t ! nat k) =
                   (\<forall>k. i + 1 \<le> k \<and> k < dim \<longrightarrow> shape (nat k) = spec_shape t ! nat k)"
      proof
        assume "\<forall>k. i \<le> k \<and> k < dim \<longrightarrow> shape (nat k) = spec_shape t ! nat k"
        then show "\<forall>k. i + 1 \<le> k \<and> k < dim \<longrightarrow> shape (nat k) = spec_shape t ! nat k"
          by auto
      next
        assume r: "\<forall>k. i + 1 \<le> k \<and> k < dim \<longrightarrow> shape (nat k) = spec_shape t ! nat k"
        show "\<forall>k. i \<le> k \<and> k < dim \<longrightarrow> shape (nat k) = spec_shape t ! nat k"
        proof (intro allI impI)
          fix k assume k: "i \<le> k \<and> k < dim"
          show "shape (nat k) = spec_shape t ! nat k"
          proof (cases "k = i")
            case True
            with \<open>shape (nat i) = spec_shape t ! nat i\<close> show ?thesis by simp
          next
            case False
            with k r show ?thesis by auto
          qed
        qed
      qed
      from "1.IH" [OF lt True] "1.prems"
      have "HexagonModel_SetInput_loop shape t dim (i + 1) =
         (if \<forall>k. i + 1 \<le> k \<and> k < dim \<longrightarrow> shape (nat k) = spec_shape t ! nat k then None
          else Some (Fatal ''Incorrect input shape''))"
        by simp
      with lt True split unfold show ?thesis by simp
    qed
  qed
qed

lemma shape_match_nat:
  "(\<forall>k. 0 \<le> k \<and> k < dim \<longrightarrow> shape (nat k) = xs ! nat k) = (\<forall>i<nat dim. shape i = xs ! i)"
proof
  assume l: "\<forall>k. 0 \<le> k \<and> k < dim \<longrightarrow> shape (nat k) = xs ! nat k"
  show "\<forall>i<nat dim. shape i = xs ! i"
  proof (intro allI impI)
    fix i assume "i < nat dim"
    then have "0 \<le> int i \<and> int i < dim" by auto
    with l have "shape (nat (int i)) = xs ! nat (int i)" by blast
    then show "shape i = xs ! i" by simp
  qed
next
  assume "\<forall>i<nat dim. shape i = xs ! i"
  then show "\<forall>k. 0 \<le> k \<and> k < dim \<longrightarrow> shape (nat k) = xs ! nat k" by auto
qed

lemma SetInput_shape_check:
  "HexagonModel_SetInput_loop shape t dim 0 =
     (if \<forall>i<nat dim. shape i = spec_shape t ! i then None
      else Some (Fatal ''Incorrect input shape''))"
  using SetInput_loop_result [of 0 shape t dim] by (simp only: shape_match_nat)

text \<open>
  Claim C2. For every \<^verbatim>\<open>HexagonModel::SetInput(name, shape, input, dim)\<close> whose name
  resolves to a discovered input spec: if \<open>dim\<close> differs from the spec's rank, or one of
  the \<open>dim\<close> shape elements differs from the spec's extent, the call fails with a fatal log
  and the adapter, its input buffer included, is as before; if all match, the call
  succeeds and the only change is that the first \<^verbatim>\<open>bytes\<close> cells of the input buffer are the
  caller's, the cells after them being as before. The count is the spec's \<^verbatim>\<open>bytes\<close> as
  \<^verbatim>\<open>memcpy\<close> receives it, the number itself when it is not negative.
\<close>

theorem hexagon_set_input_checked:
  assumes resolves: "HexagonModel_GetInputId m name = Inr index"
    and discovered: "num_inputs m = length (input_tensors_spec m)"
  shows "index < length (input_tensors_spec m) \<and>
    ((dim \<noteq> spec_dim (input_tensors_spec m ! index) \<or>
      (\<exists>i<nat dim. shape i \<noteq> spec_shape (input_tensors_spec m ! index) ! i)) \<longrightarrow>
       (\<exists>msg. HexagonModel_SetInput m name shape input dim = (Inl (Fatal msg), m))) \<and>
    (dim = spec_dim (input_tensors_spec m ! index) \<and>
     (\<forall>i<nat dim. shape i = spec_shape (input_tensors_spec m ! index) ! i) \<longrightarrow>
       (\<exists>buffer.
          HexagonModel_SetInput m name shape input dim
            = (Inr (), m\<lparr>hexagon_input := buffer\<rparr>) \<and>
          (\<forall>k. buffer k =
             (if k < size_t_of_int (spec_bytes (input_tensors_spec m ! index)) then input k
              else hexagon_input m k)))) \<and>
    (0 \<le> spec_bytes (input_tensors_spec m ! index) \<and>
     spec_bytes (input_tensors_spec m ! index) < 2 ^ 64 \<longrightarrow>
       size_t_of_int (spec_bytes (input_tensors_spec m ! index))
         = nat (spec_bytes (input_tensors_spec m ! index)))"
proof -
  from resolves have "index < num_inputs m"
    using GetInputId_loop_Inr [of m name 0 index] by (simp add: HexagonModel_GetInputId_def)
  with discovered have inrange: "index < length (input_tensors_spec m)" by simp
  have bad: "\<exists>msg. HexagonModel_SetInput m name shape input dim = (Inl (Fatal msg), m)"
    if "dim \<noteq> spec_dim (input_tensors_spec m ! index) \<or>
        (\<exists>i<nat dim. shape i \<noteq> spec_shape (input_tensors_spec m ! index) ! i)"
    using that resolves
    by (auto simp: HexagonModel_SetInput_def SetInput_shape_check)
  have good: "\<exists>buffer.
          HexagonModel_SetInput m name shape input dim
            = (Inr (), m\<lparr>hexagon_input := buffer\<rparr>) \<and>
          (\<forall>k. buffer k =
             (if k < size_t_of_int (spec_bytes (input_tensors_spec m ! index)) then input k
              else hexagon_input m k))"
    if "dim = spec_dim (input_tensors_spec m ! index) \<and>
        (\<forall>i<nat dim. shape i = spec_shape (input_tensors_spec m ! index) ! i)"
    using that resolves
    by (auto simp: HexagonModel_SetInput_def SetInput_shape_check memcpy_def)
  from inrange bad good show ?thesis
    by (simp add: size_t_of_int_nat)
qed

theorem hexagon_set_input_checked_witness:
  "HexagonModel_GetInputId example_hexagon ''mask'' = Inr 1 \<and>
   num_inputs example_hexagon = length (input_tensors_spec example_hexagon) \<and>
   (\<exists>msg. HexagonModel_SetInput example_hexagon ''mask'' (cells [3]) (cells [9, 8, 7, 6]) 2
            = (Inl (Fatal msg), example_hexagon)) \<and>
   (\<exists>msg. HexagonModel_SetInput example_hexagon ''mask'' (cells [4]) (cells [9, 8, 7, 6]) 1
            = (Inl (Fatal msg), example_hexagon)) \<and>
   (\<exists>buffer.
      HexagonModel_SetInput example_hexagon ''mask'' (cells [3]) (cells [9, 8, 7, 6]) 1
        = (Inr (), example_hexagon\<lparr>hexagon_input := buffer\<rparr>) \<and>
      buffer 0 = 9 \<and> buffer 1 = 8 \<and> buffer 2 = 7 \<and> buffer 3 = 0)"
proof -
  have id: "HexagonModel_GetInputId example_hexagon ''mask'' = Inr 1"
    by (simp add: HexagonModel_GetInputId_def HexagonModel_GetInputId_loop.simps
        example_hexagon_def)
  have n: "num_inputs example_hexagon = length (input_tensors_spec example_hexagon)"
    by (simp add: example_hexagon_def)
  have spec: "input_tensors_spec example_hexagon ! 1 =
      \<lparr>spec_name = ''mask'', spec_dim = 1, spec_shape = [3], spec_bytes = 3, spec_size = 3\<rparr>"
    by (simp add: example_hexagon_def)
  have buf: "hexagon_input example_hexagon = cells []"
    by (simp add: example_hexagon_def)
  note inst = hexagon_set_input_checked [OF id n, unfolded spec]
  have bytes: "size_t_of_int 3 = 3"
    by (simp add: size_t_of_int_def)
  have a: "\<exists>msg. HexagonModel_SetInput example_hexagon ''mask'' (cells [3]) (cells [9, 8, 7, 6]) 2
            = (Inl (Fatal msg), example_hexagon)"
    using inst [of 2 "cells [3]" "cells [9, 8, 7, 6]"] by simp
  have b: "\<exists>msg. HexagonModel_SetInput example_hexagon ''mask'' (cells [4]) (cells [9, 8, 7, 6]) 1
            = (Inl (Fatal msg), example_hexagon)"
    using inst [of 1 "cells [4]" "cells [9, 8, 7, 6]"] by (simp add: cells_def)
  have c: "\<exists>buffer.
      HexagonModel_SetInput example_hexagon ''mask'' (cells [3]) (cells [9, 8, 7, 6]) 1
        = (Inr (), example_hexagon\<lparr>hexagon_input := buffer\<rparr>) \<and>
      buffer 0 = 9 \<and> buffer 1 = 8 \<and> buffer 2 = 7 \<and> buffer 3 = 0"
    using inst [of 1 "cells [3]" "cells [9, 8, 7, 6]"]
    by (auto simp: bytes buf cells_def)
  from id n a b c show ?thesis by simp
qed

text \<open>
  Claim C4. For every \<^verbatim>\<open>HexagonModel::GetOutput(index, out)\<close> on an adapter whose
  \<^verbatim>\<open>num_outputs_\<close> is the number of discovered output specs: an index outside
  \<open>0 \<le> index < count\<close> fails with a fatal log, and an index inside copies the first
  \<^verbatim>\<open>bytes\<close> cells of the backend's output buffer into the caller's buffer and leaves the
  caller's other cells alone. \<open>index\<close> is a C \<^verbatim>\<open>int\<close>, and the specs were counted by one.
\<close>

theorem hexagon_get_output_bounds:
  assumes discovered: "num_outputs m = length (output_tensors_spec m)"
    and count: "length (output_tensors_spec m) \<le> 2 ^ 31"
    and int_index: "- (2 ^ 31) \<le> index \<and> index < 2 ^ 31"
  shows "(\<not> (0 \<le> index \<and> index < int (length (output_tensors_spec m))) \<longrightarrow>
           (\<exists>msg. HexagonModel_GetOutput m index out = Inl (Fatal msg))) \<and>
         (0 \<le> index \<and> index < int (length (output_tensors_spec m)) \<longrightarrow>
           (\<exists>buffer.
              HexagonModel_GetOutput m index out = Inr buffer \<and>
              (\<forall>k. buffer k =
                 (if k < size_t_of_int (spec_bytes (output_tensors_spec m ! nat index))
                  then hexagon_output m k else out k)))) \<and>
         (0 \<le> index \<and> index < int (length (output_tensors_spec m)) \<and>
          0 \<le> spec_bytes (output_tensors_spec m ! nat index) \<and>
          spec_bytes (output_tensors_spec m ! nat index) < 2 ^ 64 \<longrightarrow>
            size_t_of_int (spec_bytes (output_tensors_spec m ! nat index))
              = nat (spec_bytes (output_tensors_spec m ! nat index)))"
proof -
  have neg: "\<not> CHECK_LT_index index (num_outputs m)" if "index < 0"
  proof -
    from that int_index have "size_t_of_int index = nat (2 ^ 64 + index)"
      by (intro size_t_of_int_neg) auto
    moreover from int_index have "(2::int) ^ 31 < 2 ^ 64 + index" by simp
    ultimately have "2 ^ 31 < size_t_of_int index" by (simp add: nat_less_iff)
    with count discovered show ?thesis by (simp add: CHECK_LT_index_def)
  qed
  have nonneg: "size_t_of_int index = nat index" if "0 \<le> index"
    using that int_index by (intro size_t_of_int_nat) auto
  have high: "\<not> CHECK_LT_index index (num_outputs m)"
    if "0 \<le> index" "\<not> index < int (length (output_tensors_spec m))"
    using that nonneg discovered by (simp add: CHECK_LT_index_def)
  have inr: "CHECK_LT_index index (num_outputs m)"
    if "0 \<le> index" "index < int (length (output_tensors_spec m))"
    using that nonneg discovered by (simp add: CHECK_LT_index_def nat_less_iff)
  show ?thesis
  proof (cases "0 \<le> index \<and> index < int (length (output_tensors_spec m))")
    case True
    with inr nonneg show ?thesis
      by (simp add: HexagonModel_GetOutput_def memcpy_def size_t_of_int_nat)
  next
    case False
    with neg high have "\<not> CHECK_LT_index index (num_outputs m)" by force
    with False show ?thesis by (auto simp: HexagonModel_GetOutput_def)
  qed
qed

theorem hexagon_get_output_bounds_witness:
  "num_outputs example_hexagon = length (output_tensors_spec example_hexagon) \<and>
   length (output_tensors_spec example_hexagon) \<le> 2 ^ 31 \<and>
   (\<exists>msg. HexagonModel_GetOutput example_hexagon (- 1) (cells [1, 2, 3]) = Inl (Fatal msg)) \<and>
   (\<exists>msg. HexagonModel_GetOutput example_hexagon 1 (cells [1, 2, 3]) = Inl (Fatal msg)) \<and>
   (\<exists>buffer. HexagonModel_GetOutput example_hexagon 0 (cells [1, 2, 3]) = Inr buffer \<and>
      buffer 0 = 21 \<and> buffer 1 = 22 \<and> buffer 2 = 3 \<and> buffer 3 = 0)"
proof -
  have n: "num_outputs example_hexagon = length (output_tensors_spec example_hexagon)"
    by (simp add: example_hexagon_def)
  have c: "length (output_tensors_spec example_hexagon) \<le> 2 ^ 31"
    by (simp add: example_hexagon_def)
  have len: "length (output_tensors_spec example_hexagon) = 1"
    by (simp add: example_hexagon_def)
  have spec: "output_tensors_spec example_hexagon ! 0 =
      \<lparr>spec_name = ''scores'', spec_dim = 2, spec_shape = [1, 2], spec_bytes = 2, spec_size = 2\<rparr>"
    by (simp add: example_hexagon_def)
  have buf: "hexagon_output example_hexagon = cells [21, 22, 23]"
    by (simp add: example_hexagon_def)
  note inst = hexagon_get_output_bounds [OF n c, unfolded len]
  have low: "\<exists>msg. HexagonModel_GetOutput example_hexagon (- 1) (cells [1, 2, 3]) = Inl (Fatal msg)"
    using inst [of "- 1" "cells [1, 2, 3]"] by simp
  have high: "\<exists>msg. HexagonModel_GetOutput example_hexagon 1 (cells [1, 2, 3]) = Inl (Fatal msg)"
    using inst [of 1 "cells [1, 2, 3]"] by simp
  have bytes: "size_t_of_int 2 = 2"
    by (simp add: size_t_of_int_def)
  have ok: "\<exists>buffer. HexagonModel_GetOutput example_hexagon 0 (cells [1, 2, 3]) = Inr buffer \<and>
      buffer 0 = 21 \<and> buffer 1 = 22 \<and> buffer 2 = 3 \<and> buffer 3 = 0"
    using inst [of 0 "cells [1, 2, 3]"]
    by (auto simp: spec buf bytes cells_def)
  from n c low high ok show ?thesis by simp
qed

text \<open>
  The scan of \<^verbatim>\<open>GetInputId\<close> finds a name that some spec at or after the start bears, at
  the first such spec.
\<close>

lemma GetInputId_loop_finds:
  "i \<le> k \<Longrightarrow> k < num_inputs m \<Longrightarrow> spec_name (input_tensors_spec m ! k) = name \<Longrightarrow>
   \<exists>index. HexagonModel_GetInputId_loop m name i = Inr index \<and> index \<le> k \<and>
     (\<forall>j. i \<le> j \<and> j < index \<longrightarrow> spec_name (input_tensors_spec m ! j) \<noteq> name)"
proof (induction m name i rule: HexagonModel_GetInputId_loop.induct)
  case (1 m name i)
  note unfold = HexagonModel_GetInputId_loop.simps [of m name i]
  from "1.prems" have lt: "i < num_inputs m" by simp
  show ?case
  proof (cases "spec_name (input_tensors_spec m ! i) = name")
    case True
    with lt unfold "1.prems" show ?thesis by auto
  next
    case False
    with "1.prems" have "i \<noteq> k" by auto
    with "1.prems" have le: "i + 1 \<le> k" by simp
    from "1.IH" [OF lt False le "1.prems"(2,3)]
    obtain index where ix: "HexagonModel_GetInputId_loop m name (i + 1) = Inr index"
      "index \<le> k"
      "\<forall>j. i + 1 \<le> j \<and> j < index \<longrightarrow> spec_name (input_tensors_spec m ! j) \<noteq> name"
      by blast
    have "\<forall>j. i \<le> j \<and> j < index \<longrightarrow> spec_name (input_tensors_spec m ! j) \<noteq> name"
    proof (intro allI impI)
      fix j assume j: "i \<le> j \<and> j < index"
      show "spec_name (input_tensors_spec m ! j) \<noteq> name"
      proof (cases "j = i")
        case True
        with False show ?thesis by simp
      next
        case False
        with j ix(3) show ?thesis by simp
      qed
    qed
    with ix lt False unfold show ?thesis by simp
  qed
qed

text \<open>
  Claim C6. For every discovered input name, that is, every name a spec of the adapter
  bears, \<^verbatim>\<open>GetInputId\<close> resolves the name to the first spec bearing it, and \<^verbatim>\<open>SetInput\<close>
  with that spec's rank and extents followed by \<^verbatim>\<open>GetInput\<close> of the same name succeeds
  and gives the caller back the cells it passed in, over the spec's byte count; the cells
  of the caller's buffer after them are as before.
\<close>

theorem hexagon_set_get_input_roundtrip:
  assumes discovered: "num_inputs m = length (input_tensors_spec m)"
    and name: "name \<in> set (map spec_name (input_tensors_spec m))"
  shows "\<exists>index.
           HexagonModel_GetInputId m name = Inr index \<and>
           index < length (input_tensors_spec m) \<and>
           spec_name (input_tensors_spec m ! index) = name \<and>
           (\<forall>k<index. spec_name (input_tensors_spec m ! k) \<noteq> name) \<and>
           ((\<forall>i<nat (spec_dim (input_tensors_spec m ! index)).
                shape i = spec_shape (input_tensors_spec m ! index) ! i) \<longrightarrow>
            (\<exists>m' out'.
               HexagonModel_SetInput m name shape buf (spec_dim (input_tensors_spec m ! index))
                 = (Inr (), m') \<and>
               HexagonModel_GetInput m' name out = Inr out' \<and>
               (\<forall>k. out' k =
                  (if k < size_t_of_int (spec_bytes (input_tensors_spec m ! index))
                   then buf k else out k))))"
proof -
  from name obtain k where k: "k < length (input_tensors_spec m)"
    "spec_name (input_tensors_spec m ! k) = name"
    by (auto simp: in_set_conv_nth)
  from GetInputId_loop_finds [of 0 k m name] k discovered
  obtain index where ix: "HexagonModel_GetInputId_loop m name 0 = Inr index" "index \<le> k"
    "\<forall>j<index. spec_name (input_tensors_spec m ! j) \<noteq> name"
    by auto
  from GetInputId_loop_Inr [OF ix(1)] discovered
  have at: "index < length (input_tensors_spec m)"
    "spec_name (input_tensors_spec m ! index) = name"
    by simp_all
  have resolves: "HexagonModel_GetInputId m name = Inr index"
    using ix(1) by (simp add: HexagonModel_GetInputId_def)
  let ?n = "size_t_of_int (spec_bytes (input_tensors_spec m ! index))"
  let ?m' = "m\<lparr>hexagon_input := memcpy (hexagon_input m) buf ?n\<rparr>"
  have trip: "\<exists>m' out'.
       HexagonModel_SetInput m name shape buf (spec_dim (input_tensors_spec m ! index))
         = (Inr (), m') \<and>
       HexagonModel_GetInput m' name out = Inr out' \<and>
       (\<forall>k. out' k = (if k < ?n then buf k else out k))"
    if extents: "\<forall>i<nat (spec_dim (input_tensors_spec m ! index)).
        shape i = spec_shape (input_tensors_spec m ! index) ! i"
  proof -
    from resolves extents
    have set: "HexagonModel_SetInput m name shape buf
        (spec_dim (input_tensors_spec m ! index)) = (Inr (), ?m')"
      by (simp add: HexagonModel_SetInput_def SetInput_shape_check)
    have "HexagonModel_GetInputId ?m' name = Inr index"
      using resolves by (simp add: HexagonModel_GetInputId_def GetInputId_loop_hexagon_input)
    then have get: "HexagonModel_GetInput ?m' name out =
        Inr (memcpy out (memcpy (hexagon_input m) buf ?n) ?n)"
      by (simp add: HexagonModel_GetInput_def)
    have "\<forall>k. memcpy out (memcpy (hexagon_input m) buf ?n) ?n k =
        (if k < ?n then buf k else out k)"
      by (simp add: memcpy_def)
    with set get show ?thesis by blast
  qed
  from resolves at ix(3) trip show ?thesis by blast
qed

theorem hexagon_set_get_input_roundtrip_witness:
  "num_inputs example_hexagon = length (input_tensors_spec example_hexagon) \<and>
   ''mask'' \<in> set (map spec_name (input_tensors_spec example_hexagon)) \<and>
   HexagonModel_GetInputId example_hexagon ''mask'' = Inr 1 \<and>
   (\<exists>m' out'.
      HexagonModel_SetInput example_hexagon ''mask'' (cells [3]) (cells [5, 6, 7, 8]) 1
        = (Inr (), m') \<and>
      HexagonModel_GetInput m' ''mask'' (cells [9, 9, 9, 9, 9]) = Inr out' \<and>
      out' 0 = 5 \<and> out' 1 = 6 \<and> out' 2 = 7 \<and> out' 3 = 9)"
proof -
  have n: "num_inputs example_hexagon = length (input_tensors_spec example_hexagon)"
    by (simp add: example_hexagon_def)
  have nm: "''mask'' \<in> set (map spec_name (input_tensors_spec example_hexagon))"
    by (simp add: example_hexagon_def)
  have id: "HexagonModel_GetInputId example_hexagon ''mask'' = Inr 1"
    by (simp add: HexagonModel_GetInputId_def HexagonModel_GetInputId_loop.simps
        example_hexagon_def)
  have spec: "input_tensors_spec example_hexagon ! Suc 0 =
      \<lparr>spec_name = ''mask'', spec_dim = 1, spec_shape = [3], spec_bytes = 3, spec_size = 3\<rparr>"
    by (simp add: example_hexagon_def)
  have bytes: "size_t_of_int 3 = 3"
    by (simp add: size_t_of_int_def)
  from hexagon_set_get_input_roundtrip
    [OF n nm, of "cells [3]" "cells [5, 6, 7, 8]" "cells [9, 9, 9, 9, 9]"]
  obtain index where ix: "HexagonModel_GetInputId example_hexagon ''mask'' = Inr index"
    and trip: "(\<forall>i<nat (spec_dim (input_tensors_spec example_hexagon ! index)).
                cells [3] i = spec_shape (input_tensors_spec example_hexagon ! index) ! i) \<longrightarrow>
            (\<exists>m' out'.
               HexagonModel_SetInput example_hexagon ''mask'' (cells [3]) (cells [5, 6, 7, 8])
                 (spec_dim (input_tensors_spec example_hexagon ! index)) = (Inr (), m') \<and>
               HexagonModel_GetInput m' ''mask'' (cells [9, 9, 9, 9, 9]) = Inr out' \<and>
               (\<forall>k. out' k =
                  (if k < size_t_of_int (spec_bytes (input_tensors_spec example_hexagon ! index))
                   then cells [5, 6, 7, 8] k else cells [9, 9, 9, 9, 9] k)))"
    by blast
  from ix id have index: "index = Suc 0" by simp
  from trip obtain m' out' where r:
    "HexagonModel_SetInput example_hexagon ''mask'' (cells [3]) (cells [5, 6, 7, 8]) 1
        = (Inr (), m')"
    "HexagonModel_GetInput m' ''mask'' (cells [9, 9, 9, 9, 9]) = Inr out'"
    "\<forall>k. out' k = (if k < 3 then cells [5, 6, 7, 8] k else cells [9, 9, 9, 9, 9] k)"
    unfolding index spec by (auto simp: bytes cells_def)
  from r(3) have "out' 0 = 5 \<and> out' 1 = 6 \<and> out' 2 = 7 \<and> out' 3 = 9"
    by (simp add: cells_def)
  with n nm id r(1,2) show ?thesis by blast
qed


section \<open>Proofs: Hexagon schema discovery\<close>

lemma GenTensorSpec_loop_inputs:
  assumes zero: "\<forall>k. j \<le> k \<and> k < n \<longrightarrow> reply_err (fi (int k)) = 0"
    and stop: "reply_err (fi (int n)) \<noteq> 0"
    and le: "j \<le> n"
  shows "HexagonModel_GenTensorSpec_loop fi fo True (int j) m =
     Some (m\<lparr>input_tensors_spec :=
                input_tensors_spec m @ map (\<lambda>k. discovered_spec (fi (int k))) [j..<n],
              input_names := input_names m @ map (\<lambda>k. reply_name (fi (int k))) [j..<n]\<rparr>)"
  using zero le
proof (induction "n - j" arbitrary: j m)
  case 0
  then have "j = n" by simp
  with stop show ?case
    by (subst HexagonModel_GenTensorSpec_loop.simps) simp
next
  case (Suc d)
  then have lt: "j < n" and d: "d = n - Suc j" by auto
  from Suc.prems lt have z: "reply_err (fi (int j)) = 0" by auto
  have step: "int j + 1 = int (Suc j)" by simp
  from Suc.prems have zero': "\<forall>k. Suc j \<le> k \<and> k < n \<longrightarrow> reply_err (fi (int k)) = 0"
    by auto
  from lt have le': "Suc j \<le> n" by simp
  have range: "[j..<n] = j # [Suc j..<n]" using lt by (simp add: upt_conv_Cons)
  let ?m1 = "m\<lparr>input_tensors_spec := input_tensors_spec m @ [discovered_spec (fi (int j))],
           input_names := input_names m @ [reply_name (fi (int j))]\<rparr>"
  have "HexagonModel_GenTensorSpec_loop fi fo True (int j) m =
        HexagonModel_GenTensorSpec_loop fi fo True (int j + 1) ?m1"
    by (subst HexagonModel_GenTensorSpec_loop.simps) (simp add: z Let_def)
  also have "\<dots> = HexagonModel_GenTensorSpec_loop fi fo True (int (Suc j)) ?m1"
    by (simp only: step)
  also note Suc.hyps(1) [OF d zero' le', of ?m1]
  finally show ?case by (simp add: range)
qed

lemma GenTensorSpec_loop_outputs:
  assumes zero: "\<forall>k. j \<le> k \<and> k < n \<longrightarrow> reply_err (fo (int k)) = 0"
    and stop: "reply_err (fo (int n)) \<noteq> 0"
    and le: "j \<le> n"
  shows "HexagonModel_GenTensorSpec_loop fi fo False (int j) m =
     Some (m\<lparr>output_tensors_spec :=
                output_tensors_spec m @ map (\<lambda>k. discovered_spec (fo (int k))) [j..<n]\<rparr>)"
  using zero le
proof (induction "n - j" arbitrary: j m)
  case 0
  then have "j = n" by simp
  with stop show ?case
    by (subst HexagonModel_GenTensorSpec_loop.simps) simp
next
  case (Suc d)
  then have lt: "j < n" and d: "d = n - Suc j" by auto
  from Suc.prems lt have z: "reply_err (fo (int j)) = 0" by auto
  have step: "int j + 1 = int (Suc j)" by simp
  from Suc.prems have zero': "\<forall>k. Suc j \<le> k \<and> k < n \<longrightarrow> reply_err (fo (int k)) = 0"
    by auto
  from lt have le': "Suc j \<le> n" by simp
  have range: "[j..<n] = j # [Suc j..<n]" using lt by (simp add: upt_conv_Cons)
  let ?m1 = "m\<lparr>output_tensors_spec := output_tensors_spec m @ [discovered_spec (fo (int j))]\<rparr>"
  have "HexagonModel_GenTensorSpec_loop fi fo False (int j) m =
        HexagonModel_GenTensorSpec_loop fi fo False (int j + 1) ?m1"
    by (subst HexagonModel_GenTensorSpec_loop.simps) (simp add: z Let_def)
  also have "\<dots> = HexagonModel_GenTensorSpec_loop fi fo False (int (Suc j)) ?m1"
    by (simp only: step)
  also note Suc.hyps(1) [OF d zero' le', of ?m1]
  finally show ?case by (simp add: range)
qed

text \<open>
  Claim C9. For every pair of backend spec-query functions: if the input query returns 0
  for the ids \<open>0, \<dots>, n_in - 1\<close> and a nonzero code for \<open>n_in\<close>, and the output query
  likewise up to \<open>n_out\<close>, then \<^verbatim>\<open>HexagonModel::InitInputOutputTensorSpecs\<close> returns, having
  appended exactly one tensor spec per successful query, in ascending id order, to the input
  specs and to the output specs, each from its own query function alone, and having
  mirrored the input names into the name list in the same order;
  \<^verbatim>\<open>GetNumInputs()\<close> and \<^verbatim>\<open>GetNumOutputs()\<close> are then the numbers of specs held, which for
  an adapter that held none before are \<open>n_in\<close> and \<open>n_out\<close>. The ids are C \<^verbatim>\<open>int\<close>s, so
  the two counts are below \<open>2^31\<close>.
\<close>

theorem hexagon_schema_discovery:
  assumes in_zero: "\<forall>k<n_in. reply_err (dlr_hexagon_input_spec (int k)) = 0"
    and in_stop: "reply_err (dlr_hexagon_input_spec (int n_in)) \<noteq> 0"
    and out_zero: "\<forall>k<n_out. reply_err (dlr_hexagon_output_spec (int k)) = 0"
    and out_stop: "reply_err (dlr_hexagon_output_spec (int n_out)) \<noteq> 0"
    and int_ids: "n_in < 2 ^ 31" "n_out < 2 ^ 31"
  shows "\<exists>m'.
    HexagonModel_InitInputOutputTensorSpecs dlr_hexagon_input_spec dlr_hexagon_output_spec m
      = Some m' \<and>
    input_tensors_spec m' =
      input_tensors_spec m @
        map (\<lambda>k. discovered_spec (dlr_hexagon_input_spec (int k))) [0..<n_in] \<and>
    input_names m' =
      input_names m @ map (\<lambda>k. reply_name (dlr_hexagon_input_spec (int k))) [0..<n_in] \<and>
    output_tensors_spec m' =
      output_tensors_spec m @
        map (\<lambda>k. discovered_spec (dlr_hexagon_output_spec (int k))) [0..<n_out] \<and>
    DLRModel_GetNumInputs m' = int (length (input_tensors_spec m')) \<and>
    DLRModel_GetNumOutputs m' = int (length (output_tensors_spec m')) \<and>
    length (input_tensors_spec m') = length (input_tensors_spec m) + n_in \<and>
    length (output_tensors_spec m') = length (output_tensors_spec m) + n_out \<and>
    (input_tensors_spec m = [] \<longrightarrow> DLRModel_GetNumInputs m' = int n_in) \<and>
    (output_tensors_spec m = [] \<longrightarrow> DLRModel_GetNumOutputs m' = int n_out)"
proof -
  from in_zero have iz: "\<forall>k. 0 \<le> k \<and> k < n_in \<longrightarrow> reply_err (dlr_hexagon_input_spec (int k)) = 0"
    by simp
  from out_zero have oz: "\<forall>k. 0 \<le> k \<and> k < n_out \<longrightarrow> reply_err (dlr_hexagon_output_spec (int k)) = 0"
    by simp
  note ins = GenTensorSpec_loop_inputs [OF iz in_stop, simplified]
  note outs = GenTensorSpec_loop_outputs [OF oz out_stop, simplified]
  show ?thesis
    by (simp add: HexagonModel_InitInputOutputTensorSpecs_def HexagonModel_GenTensorSpec_def
        ins outs DLRModel_GetNumInputs_def DLRModel_GetNumOutputs_def)
qed

theorem hexagon_schema_discovery_witness:
  "reply_err (example_input_spec (int 0)) = 0 \<and>
   reply_err (example_input_spec (int 1)) = 0 \<and>
   reply_err (example_input_spec (int 2)) \<noteq> 0 \<and>
   reply_err (example_output_spec (int 0)) = 0 \<and>
   reply_err (example_output_spec (int 1)) \<noteq> 0 \<and>
   (2::nat) < 2 ^ 31 \<and> (1::nat) < 2 ^ 31 \<and>
   (\<exists>m'.
      HexagonModel_InitInputOutputTensorSpecs example_input_spec example_output_spec
          example_hexagon_undiscovered = Some m' \<and>
      input_tensors_spec m' =
        [\<lparr>spec_name = ''image'', spec_dim = 2, spec_shape = [1, 4],
          spec_bytes = 4, spec_size = 4\<rparr>,
         \<lparr>spec_name = ''mask'', spec_dim = 1, spec_shape = [3],
          spec_bytes = 3, spec_size = 3\<rparr>] \<and>
      input_names m' = [''image'', ''mask''] \<and>
      output_tensors_spec m' =
        [\<lparr>spec_name = ''scores'', spec_dim = 2, spec_shape = [1, 2],
          spec_bytes = 2, spec_size = 2\<rparr>] \<and>
      DLRModel_GetNumInputs m' = 2 \<and>
      DLRModel_GetNumOutputs m' = 1)"
proof -
  have i: "\<forall>k<2. reply_err (example_input_spec (int k)) = 0"
    by (simp add: example_input_spec_def less_Suc_eq numeral_2_eq_2)
  have i2: "reply_err (example_input_spec (int 2)) \<noteq> 0"
    by (simp add: example_input_spec_def)
  have o: "\<forall>k<1. reply_err (example_output_spec (int k)) = 0"
    by (simp add: example_output_spec_def)
  have o1: "reply_err (example_output_spec (int 1)) \<noteq> 0"
    by (simp add: example_output_spec_def)
  have nil: "input_tensors_spec example_hexagon_undiscovered = []"
    "output_tensors_spec example_hexagon_undiscovered = []"
    "input_names example_hexagon_undiscovered = []"
    by (simp_all add: example_hexagon_undiscovered_def)
  have upt2: "[0..<2] = [0, Suc 0]" by (simp add: numeral_2_eq_2)
  have in0: "example_input_spec 0 =
        \<lparr>reply_err = 0, reply_name = ''image'', reply_dim = 2, reply_shape = cells [1, 4],
         reply_length = 4, reply_bytes = 4\<rparr>"
    and in1: "example_input_spec 1 =
        \<lparr>reply_err = 0, reply_name = ''mask'', reply_dim = 1, reply_shape = cells [3],
         reply_length = 3, reply_bytes = 3\<rparr>"
    by (simp_all add: example_input_spec_def)
  have out0: "example_output_spec 0 =
        \<lparr>reply_err = 0, reply_name = ''scores'', reply_dim = 2, reply_shape = cells [1, 2],
         reply_length = 2, reply_bytes = 2\<rparr>"
    by (simp add: example_output_spec_def)
  have c: "(2::nat) < 2 ^ 31" "(1::nat) < 2 ^ 31" by simp_all
  from hexagon_schema_discovery [OF i i2 o o1 c, of example_hexagon_undiscovered]
  obtain m' where m': "HexagonModel_InitInputOutputTensorSpecs example_input_spec
        example_output_spec example_hexagon_undiscovered = Some m'"
    "input_tensors_spec m' = map (\<lambda>k. discovered_spec (example_input_spec (int k))) [0..<2]"
    "input_names m' = map (\<lambda>k. reply_name (example_input_spec (int k))) [0..<2]"
    "output_tensors_spec m' = map (\<lambda>k. discovered_spec (example_output_spec (int k))) [0..<1]"
    "DLRModel_GetNumInputs m' = int (length (input_tensors_spec m'))"
    "DLRModel_GetNumOutputs m' = int (length (output_tensors_spec m'))"
    unfolding nil by auto
  have "input_tensors_spec m' =
        [\<lparr>spec_name = ''image'', spec_dim = 2, spec_shape = [1, 4],
          spec_bytes = 4, spec_size = 4\<rparr>,
         \<lparr>spec_name = ''mask'', spec_dim = 1, spec_shape = [3],
          spec_bytes = 3, spec_size = 3\<rparr>]"
    unfolding m'(2) upt2 by (simp add: in0 in1 cells_def upt2)
  moreover have "input_names m' = [''image'', ''mask'']"
    unfolding m'(3) upt2 by (simp add: in0 in1)
  moreover have "output_tensors_spec m' =
        [\<lparr>spec_name = ''scores'', spec_dim = 2, spec_shape = [1, 2],
          spec_bytes = 2, spec_size = 2\<rparr>]"
    unfolding m'(4) by (simp add: out0 cells_def upt2)
  ultimately show ?thesis using m'(1,5,6) i2 o1 in0 in1 out0 by simp
qed

text \<open>
  The loop ends only at a nonzero code: against a backend that never returns one, discovery
  does not return.
\<close>

lemma GenTensorSpec_loop_Some_stops:
  assumes some: "HexagonModel_GenTensorSpec_loop fi fo isInput j m = Some m'"
  shows "\<exists>k\<ge>j. reply_err (if isInput then fi k else fo k) \<noteq> 0"
  using some
proof (induction fi fo isInput j m m' rule: HexagonModel_GenTensorSpec_loop.raw_induct)
  case (1 loop fi fo isInput j m m')
  show ?case
  proof (cases "reply_err (if isInput then fi j else fo j) = 0")
    case False
    then show ?thesis by blast
  next
    case True
    define m1 where "m1 =
        (if isInput
         then m\<lparr>input_tensors_spec :=
                  input_tensors_spec m @ [discovered_spec (if isInput then fi j else fo j)],
                input_names :=
                  input_names m @ [reply_name (if isInput then fi j else fo j)]\<rparr>
         else m\<lparr>output_tensors_spec :=
                  output_tensors_spec m @ [discovered_spec (if isInput then fi j else fo j)]\<rparr>)"
    have a: "loop fi fo isInput (j + 1) m1 = Some m'"
      using "1.hyps" True unfolding m1_def Let_def by (cases isInput) simp_all
    have "HexagonModel_GenTensorSpec_loop fi fo isInput j m =
          HexagonModel_GenTensorSpec_loop fi fo isInput (j + 1) m1"
      using True unfolding m1_def
      by (subst HexagonModel_GenTensorSpec_loop.simps, cases isInput) (simp_all add: Let_def)
    with "1.prems" have b: "HexagonModel_GenTensorSpec_loop fi fo isInput (j + 1) m1 = Some m'"
      by simp
    from "1.IH" [OF a b]
    obtain k where "k \<ge> j + 1" "reply_err (if isInput then fi k else fo k) \<noteq> 0"
      by blast
    then show ?thesis by (intro exI [of _ k]) auto
  qed
qed (fact some)

lemma GenTensorSpec_loop_never_stops:
  assumes "\<forall>k\<ge>j. reply_err (if isInput then fi k else fo k) = 0"
  shows "HexagonModel_GenTensorSpec_loop fi fo isInput j m = None"
proof (cases "HexagonModel_GenTensorSpec_loop fi fo isInput j m")
  case None
  then show ?thesis .
next
  case (Some m')
  from GenTensorSpec_loop_Some_stops [OF this] assms show ?thesis by blast
qed

text \<open>
  Whenever discovery returns, from any adapter and against any backend, the two counts are the
  sizes of the two spec vectors: the hypothesis under which \<open>SetInput\<close>,
  \<open>GetInput\<close> and \<open>GetOutput\<close> are studied above.
\<close>

lemma GenTensorSpec_loop_first_stop:
  assumes some: "HexagonModel_GenTensorSpec_loop fi fo isInput 0 m = Some m'"
  shows "\<exists>n. (\<forall>k<n. reply_err ((if isInput then fi else fo) (int k)) = 0) \<and>
             reply_err ((if isInput then fi else fo) (int n)) \<noteq> 0"
proof -
  from GenTensorSpec_loop_Some_stops [OF some]
  obtain k where k: "0 \<le> k" "reply_err (if isInput then fi k else fo k) \<noteq> 0"
    by blast
  let ?P = "\<lambda>n. reply_err ((if isInput then fi else fo) (int n)) \<noteq> 0"
  from k have "?P (nat k)" by (cases isInput) simp_all
  then have "?P (LEAST n. ?P n)" by (rule LeastI)
  moreover have "\<forall>j<(LEAST n. ?P n). \<not> ?P j"
    using not_less_Least by blast
  ultimately show ?thesis by blast
qed

lemma InitInputOutputTensorSpecs_counts:
  assumes "HexagonModel_InitInputOutputTensorSpecs fi fo m = Some m'"
  shows "num_inputs m' = length (input_tensors_spec m') \<and>
         num_outputs m' = length (output_tensors_spec m')"
proof -
  from assms obtain m1 where
    m1: "HexagonModel_GenTensorSpec_loop fi fo True 0 m = Some m1"
    by (auto simp: HexagonModel_InitInputOutputTensorSpecs_def HexagonModel_GenTensorSpec_def
        split: option.splits)
  let ?m1 = "m1\<lparr>num_inputs := length (input_tensors_spec m1)\<rparr>"
  from assms m1 obtain m2 where
    m2: "HexagonModel_GenTensorSpec_loop fi fo False 0 ?m1 = Some m2"
    and m': "m' = m2\<lparr>num_outputs := length (output_tensors_spec m2)\<rparr>"
    by (auto simp: HexagonModel_InitInputOutputTensorSpecs_def HexagonModel_GenTensorSpec_def
        split: option.splits)
  from GenTensorSpec_loop_first_stop [OF m2] obtain n where
    n: "\<forall>k<n. reply_err (fo (int k)) = 0" "reply_err (fo (int n)) \<noteq> 0"
    by auto
  from n(1) have z: "\<forall>k. 0 \<le> k \<and> k < n \<longrightarrow> reply_err (fo (int k)) = 0" by simp
  from GenTensorSpec_loop_outputs [OF z n(2), of fi ?m1] m2
  have "m2 = ?m1\<lparr>output_tensors_spec :=
      output_tensors_spec ?m1 @ map (\<lambda>k. discovered_spec (fo (int k))) [0..<n]\<rparr>"
    by simp
  with m' show ?thesis by simp
qed


section \<open>Proofs: Treelite sparse input\<close>

lemma SetInput_cols_result:
  "TreeliteModel_SetInput_cols input_f i c j t =
     t\<lparr>data := data t @
            map (\<lambda>j. input_f (row_major_index i c j))
              (filter (\<lambda>j. \<not> isnan (input_f (row_major_index i c j))) [j..<c]),
       col_ind := col_ind t @
            filter (\<lambda>j. \<not> isnan (input_f (row_major_index i c j))) [j..<c]\<rparr>"
proof (induction input_f i c j t rule: TreeliteModel_SetInput_cols.induct)
  case (1 input_f i c j t)
  note unfold = TreeliteModel_SetInput_cols.simps [of input_f i c j t]
  show ?case
  proof (cases "j < c")
    case False
    with unfold show ?thesis by simp
  next
    case True
    then have range: "[j..<c] = j # [Suc j..<c]" by (simp add: upt_conv_Cons)
    from True "1.IH" unfold show ?thesis
      by (simp add: range)
  qed
qed

lemma length_concat_upt_first:
  "i \<le> k \<Longrightarrow>
   length (concat (map f [i..<Suc k])) = length (f i) + length (concat (map f [Suc i..<Suc k]))"
  by (simp add: upt_conv_Cons del: upt_Suc)

lemma SetInput_rows_result:
  "TreeliteModel_SetInput_rows input_f r c i t =
     t\<lparr>data := data t @
            concat (map (\<lambda>i. map (\<lambda>j. input_f (row_major_index i c j))
                               (filter (\<lambda>j. \<not> isnan (input_f (row_major_index i c j)))
                                  [0..<c])) [i..<r]),
       col_ind := col_ind t @
            concat (map (\<lambda>i. filter (\<lambda>j. \<not> isnan (input_f (row_major_index i c j)))
                               [0..<c]) [i..<r]),
       row_ptr := row_ptr t @
            map (\<lambda>k. length (data t) +
                       length (concat (map (\<lambda>i. filter
                           (\<lambda>j. \<not> isnan (input_f (row_major_index i c j))) [0..<c])
                         [i..<Suc k]))) [i..<r]\<rparr>"
proof (induction input_f r c i t rule: TreeliteModel_SetInput_rows.induct)
  case (1 input_f r c i t)
  let ?cols = "\<lambda>i. filter (\<lambda>j. \<not> isnan (input_f (row_major_index i c j))) [0..<c]"
  let ?vals = "\<lambda>i. map (\<lambda>j. input_f (row_major_index i c j)) (?cols i)"
  note unfold = TreeliteModel_SetInput_rows.simps [of input_f r c i t]
  show ?case
  proof (cases "i < r")
    case False
    with unfold show ?thesis by simp
  next
    case True
    let ?t1 = "t\<lparr>data := data t @ ?vals i, col_ind := col_ind t @ ?cols i,
                   row_ptr := row_ptr t @ [length (data t) + length (?cols i)]\<rparr>"
    have t1: "(let t' = TreeliteModel_SetInput_cols input_f i c 0 t
               in t'\<lparr>row_ptr := row_ptr t' @ [length (data t')]\<rparr>) = ?t1"
      by (simp add: Let_def SetInput_cols_result)
    have step: "TreeliteModel_SetInput_rows input_f r c i t =
                TreeliteModel_SetInput_rows input_f r c (Suc i) ?t1"
      using True unfold unfolding t1 by simp
    have ih: "TreeliteModel_SetInput_rows input_f r c (Suc i) ?t1 =
       ?t1\<lparr>data := data ?t1 @ concat (map ?vals [Suc i..<r]),
            col_ind := col_ind ?t1 @ concat (map ?cols [Suc i..<r]),
            row_ptr := row_ptr ?t1 @
              map (\<lambda>k. length (data ?t1) + length (concat (map ?cols [Suc i..<Suc k])))
                [Suc i..<r]\<rparr>"
      using "1.IH" [OF True] unfolding t1 by simp
    have range: "[i..<r] = i # [Suc i..<r]" using True by (simp add: upt_conv_Cons)
    have maps: "map (\<lambda>k. length (data t) + length (concat (map ?cols [i..<Suc k]))) [Suc i..<r] =
          map (\<lambda>k. length (data t) + length (?cols i) +
                    length (concat (map ?cols [Suc i..<Suc k]))) [Suc i..<r]"
      by (rule map_cong) (simp_all add: length_concat_upt_first del: upt_Suc)
    have first: "length (concat (map ?cols [i..<Suc i])) = length (?cols i)"
      by simp
    show ?thesis
      unfolding step ih range
      by (simp add: maps first del: upt_Suc)
  qed
qed

lemma row_major_index_exact:
  assumes "i < r" "j < c" "r * c \<le> 2 ^ 64"
  shows "row_major_index i c j = i * c + j"
proof -
  from assms(1) have "Suc i * c \<le> r * c" by (intro mult_le_mono1) simp
  with assms(2) have "i * c + j < r * c" by simp
  with assms(3) have "i * c + j < 2 ^ 64" by simp
  then show ?thesis by (simp add: row_major_index_def)
qed

lemma row_columns_exact:
  assumes "i < r" "r * c \<le> 2 ^ 64"
  shows "filter (\<lambda>j. \<not> isnan (input_f (row_major_index i c j))) [0..<c] =
         present_columns input_f c i"
  unfolding present_columns_def
  by (rule filter_cong) (simp_all add: row_major_index_exact [OF assms(1) _ assms(2)])

lemma row_values_exact:
  assumes "i < r" "r * c \<le> 2 ^ 64"
  shows "map (\<lambda>j. input_f (row_major_index i c j)) (present_columns input_f c i) =
         map (\<lambda>j. input_f (i * c + j)) (present_columns input_f c i)"
  by (rule map_cong)
     (simp_all add: present_columns_def row_major_index_exact [OF assms(1) _ assms(2)])

lemma length_concat_map_map:
  "length (concat (map (\<lambda>i. map (f i) (g i)) xs)) = length (concat (map g xs))"
  by (induction xs) simp_all

lemma length_concat_upt_mono:
  "i \<le> j \<Longrightarrow> length (concat (map f [0..<i])) \<le> length (concat (map f [0..<j]))"
proof -
  assume "i \<le> j"
  then have "[0..<j] = [0..<i] @ [i..<j]"
    by (metis le_add_diff_inverse upt_add_eq_append zero_le)
  then show ?thesis by simp
qed

lemma SetInput_rows_from_start:
  assumes "r * c \<le> 2 ^ 64"
  shows "TreeliteModel_SetInput_rows input_f r c 0
           \<lparr>data = [], col_ind = [], row_ptr = [0], num_row = 0, num_col = 0, handle = None\<rparr> =
         \<lparr>data = concat (map (\<lambda>i. map (\<lambda>j. input_f (i * c + j)) (present_columns input_f c i))
                          [0..<r]),
          col_ind = concat (map (present_columns input_f c) [0..<r]),
          row_ptr = map (\<lambda>k. length (concat (map (present_columns input_f c) [0..<k])))
                      [0..<Suc r],
          num_row = 0, num_col = 0, handle = None\<rparr>"
proof -
  have vals: "map (\<lambda>i. map (\<lambda>j. input_f (row_major_index i c j))
                    (filter (\<lambda>j. \<not> isnan (input_f (row_major_index i c j))) [0..<c])) [0..<r] =
              map (\<lambda>i. map (\<lambda>j. input_f (i * c + j)) (present_columns input_f c i)) [0..<r]"
    by (rule map_cong) (simp_all add: row_columns_exact [OF _ assms] row_values_exact [OF _ assms])
  have cols: "\<And>n. n \<le> r \<Longrightarrow>
        map (\<lambda>i. filter (\<lambda>j. \<not> isnan (input_f (row_major_index i c j))) [0..<c]) [0..<n] =
        map (present_columns input_f c) [0..<n]"
    by (rule map_cong) (simp_all add: row_columns_exact [OF _ assms])
  have ptr: "map (\<lambda>k. length (concat (map (\<lambda>i. filter
                     (\<lambda>j. \<not> isnan (input_f (row_major_index i c j))) [0..<c]) [0..<Suc k])))
               [0..<r] =
             map (\<lambda>k. length (concat (map (present_columns input_f c) [0..<Suc k]))) [0..<r]"
    by (rule map_cong) (simp_all add: cols del: upt_Suc)
  have shift: "map (\<lambda>k. length (concat (map (present_columns input_f c) [0..<k]))) [0..<Suc r] =
               0 # map (\<lambda>k. length (concat (map (present_columns input_f c) [0..<Suc k]))) [0..<r]"
    by (simp add: upt_conv_Cons map_Suc_upt [symmetric] del: upt_Suc)
  show ?thesis
    unfolding SetInput_rows_result shift
    by (simp add: vals cols ptr del: upt_Suc)
qed

lemma size_t_of_int_int: "n < 2 ^ 64 \<Longrightarrow> size_t_of_int (int n) = n"
proof -
  assume "n < 2 ^ 64"
  then have "int n mod 2 ^ 64 = int n" by simp
  then show ?thesis by (simp add: size_t_of_int_def)
qed

lemma uint32_of_int_int: "n < 2 ^ 32 \<Longrightarrow> uint32_of_int (int n) = n"
proof -
  assume "n < 2 ^ 32"
  then have "int n mod 2 ^ 32 = int n" by simp
  then show ?thesis by (simp add: uint32_of_int_def)
qed

lemma last_cumulative:
  "last (map (\<lambda>k. length (concat (map f [0..<k]))) [0..<Suc r]) =
   length (concat (map f [0..<r]))"
  by (simp del: upt_Suc add: last_map last_upt)

lemma TreeliteModel_SetInput_value:
  assumes dim: "dim = 2"
    and rows: "shape 0 = int r" "r < 2 ^ 63"
    and cols: "shape 1 = int c" "c < 2 ^ 32"
    and feat: "c \<le> treelite_num_feature m"
    and addr: "r * c \<le> 2 ^ 64"
  shows "TreeliteModel_SetInput api m name shape input dim =
     (let t = \<lparr>data = concat (map (\<lambda>i. map (\<lambda>j. input (i * c + j))
                                           (present_columns input c i)) [0..<r]),
                col_ind = concat (map (present_columns input c) [0..<r]),
                row_ptr = map (\<lambda>k. length (concat (map (present_columns input c) [0..<k])))
                            [0..<Suc r],
                num_row = r, num_col = treelite_num_feature m, handle = None\<rparr>;
          (rc, h) = TreeliteAssembleSparseBatch api (data t) (col_ind t) (row_ptr t) r
                      (treelite_num_feature m)
      in if rc \<noteq> 0 then
           (Inl (Fatal (TreeliteGetLastError api)), m\<lparr>treelite_input := Some t\<rparr>)
         else (Inr (), m\<lparr>treelite_input := Some (t\<lparr>handle := Some h\<rparr>)\<rparr>))"
proof -
  from rows have r64: "r < 2 ^ 64" by simp
  from cols have c64: "c < 2 ^ 64" by simp
  have bs: "size_t_of_int (shape 0) = r" using rows r64 by (simp add: size_t_of_int_int)
  have cs: "size_t_of_int (shape 1) = c" using cols c64 by (simp add: size_t_of_int_int)
  have nc: "uint32_of_int (shape 1) = c" using cols by (simp add: uint32_of_int_int)
  have wrap: "Suc r mod 18446744073709551616 = Suc r" using rows by simp
  show ?thesis
    unfolding TreeliteModel_SetInput_def dim bs cs nc Let_def
      SetInput_rows_from_start [OF addr]
    using feat
    by (simp add: CHECK_SHAPE_def length_concat_map_map last_cumulative wrap
        del: upt_Suc split: prod.split)
qed

lemma cumulative_nth:
  "k \<le> r \<Longrightarrow>
   map (\<lambda>k. length (concat (map f [0..<k]))) [0..<Suc r] ! k = length (concat (map f [0..<k]))"
  using nth_map_upt [of k "Suc r" 0 "\<lambda>k. length (concat (map f [0..<k]))"] by simp

lemma cumulative_sorted:
  "sorted (map (\<lambda>k. length (concat (map f [0..<k]))) [0..<Suc r])"
proof -
  have "\<And>i j. i \<le> j \<Longrightarrow> j < Suc r \<Longrightarrow>
      map (\<lambda>k. length (concat (map f [0..<k]))) [0..<Suc r] ! i \<le>
      map (\<lambda>k. length (concat (map f [0..<k]))) [0..<Suc r] ! j"
    by (simp add: cumulative_nth length_concat_upt_mono del: upt_Suc)
  then show ?thesis by (simp add: sorted_iff_nth_mono del: upt_Suc)
qed

lemma concat_segment:
  assumes "i < r"
  shows "take (length (f i)) (drop (length (concat (map f [0..<i]))) (concat (map f [0..<r]))) = f i"
proof -
  from assms have "[0..<r] = [0..<i] @ i # [Suc i..<r]"
    by (metis less_imp_le_nat le_add_diff_inverse upt_add_eq_append upt_conv_Cons zero_le)
  then have "concat (map f [0..<r]) = concat (map f [0..<i]) @ f i @ concat (map f [Suc i..<r])"
    by simp
  then show ?thesis by simp
qed

lemma concat_segment_map:
  assumes "i < r"
  shows "take (length (f i))
           (drop (length (concat (map f [0..<i])))
              (concat (map (\<lambda>i. map (g i) (f i)) [0..<r]))) = map (g i) (f i)"
  using concat_segment [OF assms, of "\<lambda>i. map (g i) (f i)"]
  by (simp add: length_concat_map_map)

text \<open>
  Claim C1, as amended. For every \<^verbatim>\<open>TreeliteModel::SetInput\<close> call with \<open>dim = 2\<close>, \<open>r\<close>
  rows and \<open>c\<close> columns, where \<open>c\<close> is at most the declared feature count and below
  \<open>2^32\<close> (the adapter narrows the column count to \<^verbatim>\<open>uint32_t\<close>), on a dense row-major
  buffer whose \<open>r * c\<close> cells a \<^verbatim>\<open>size_t\<close> index reaches: the sparse input that the call
  builds holds in \<open>data\<close> exactly the values that are not NaN, row after row and by
  ascending column within a row, and in \<open>col_ind\<close> their columns; the two have the same
  length, which is the last entry of \<open>row_ptr\<close>; \<open>row_ptr\<close> has \<open>r + 1\<close> entries, starts at
  0, never decreases, and grows at row \<open>i\<close> by the number of values of that row that are
  not NaN, so that the entries between \<open>row_ptr[i]\<close> and \<open>row_ptr[i + 1]\<close> are those of row
  \<open>i\<close>. None of the source's three post-condition checks fails: the call succeeds
  exactly when the backend accepts the matrix.
\<close>

theorem treelite_sparse_input:
  assumes dim: "dim = 2"
    and rows: "shape 0 = int r" "r < 2 ^ 63"
    and cols: "shape 1 = int c" "c < 2 ^ 32"
    and feat: "c \<le> treelite_num_feature m"
    and addr: "r * c \<le> 2 ^ 64"
  shows "\<exists>t. treelite_input (snd (TreeliteModel_SetInput api m name shape input dim)) = Some t \<and>
    data t = concat (map (\<lambda>i. map (\<lambda>j. input (i * c + j)) (present_columns input c i)) [0..<r]) \<and>
    col_ind t = concat (map (present_columns input c) [0..<r]) \<and>
    length (data t) = length (col_ind t) \<and>
    length (data t) = last (row_ptr t) \<and>
    length (row_ptr t) = r + 1 \<and>
    sorted (row_ptr t) \<and>
    row_ptr t ! 0 = 0 \<and>
    (\<forall>i<r. row_ptr t ! Suc i = row_ptr t ! i + length (present_columns input c i)) \<and>
    (\<forall>i<r. take (row_ptr t ! Suc i - row_ptr t ! i) (drop (row_ptr t ! i) (col_ind t))
              = present_columns input c i) \<and>
    (\<forall>i<r. take (row_ptr t ! Suc i - row_ptr t ! i) (drop (row_ptr t ! i) (data t))
              = map (\<lambda>j. input (i * c + j)) (present_columns input c i)) \<and>
    (fst (TreeliteModel_SetInput api m name shape input dim) = Inr () \<longleftrightarrow>
       fst (TreeliteAssembleSparseBatch api (data t) (col_ind t) (row_ptr t) r
              (treelite_num_feature m)) = 0)"
proof -
  let ?cols = "present_columns input c"
  let ?vals = "\<lambda>i. map (\<lambda>j. input (i * c + j)) (present_columns input c i)"
  let ?ptr = "map (\<lambda>k. length (concat (map ?cols [0..<k]))) [0..<Suc r]"
  let ?t = "\<lparr>data = concat (map ?vals [0..<r]), col_ind = concat (map ?cols [0..<r]),
             row_ptr = ?ptr, num_row = r, num_col = treelite_num_feature m, handle = None\<rparr>"
  obtain rc h where call: "TreeliteAssembleSparseBatch api (concat (map ?vals [0..<r]))
      (concat (map ?cols [0..<r])) ?ptr r (treelite_num_feature m) = (rc, h)"
    by (cases "TreeliteAssembleSparseBatch api (concat (map ?vals [0..<r]))
      (concat (map ?cols [0..<r])) ?ptr r (treelite_num_feature m)")
  define t' where "t' = (if rc \<noteq> 0 then ?t else ?t\<lparr>handle := Some h\<rparr>)"
  have fields: "data t' = concat (map ?vals [0..<r])" "col_ind t' = concat (map ?cols [0..<r])"
    "row_ptr t' = ?ptr"
    by (simp_all add: t'_def)
  have val: "TreeliteModel_SetInput api m name shape input dim =
      (if rc \<noteq> 0 then (Inl (Fatal (TreeliteGetLastError api)), m\<lparr>treelite_input := Some t'\<rparr>)
       else (Inr (), m\<lparr>treelite_input := Some t'\<rparr>))"
    unfolding TreeliteModel_SetInput_value [OF dim rows cols feat addr] t'_def
    by (simp add: call del: upt_Suc)
  have nth: "\<And>k. k \<le> r \<Longrightarrow> ?ptr ! k = length (concat (map ?cols [0..<k]))"
    by (rule cumulative_nth)
  have step: "\<And>i. i < r \<Longrightarrow> ?ptr ! Suc i = ?ptr ! i + length (?cols i)"
    by (simp add: nth del: upt_Suc) simp
  have p_input: "treelite_input (snd (TreeliteModel_SetInput api m name shape input dim)) = Some t'"
    by (simp add: val)
  have p_len: "length (data t') = length (col_ind t')"
    by (simp add: fields length_concat_map_map)
  have p_last: "length (data t') = last (row_ptr t')"
    unfolding fields last_cumulative by (simp add: length_concat_map_map)
  have p_size: "length (row_ptr t') = r + 1"
    by (simp add: fields del: upt_Suc)
  have p_sorted: "sorted (row_ptr t')"
    unfolding fields by (rule cumulative_sorted)
  have p_zero: "row_ptr t' ! 0 = 0"
    unfolding fields by (simp add: nth del: upt_Suc)
  have p_step: "\<forall>i<r. row_ptr t' ! Suc i = row_ptr t' ! i + length (?cols i)"
    unfolding fields using step by blast
  have p_cols: "\<forall>i<r. take (row_ptr t' ! Suc i - row_ptr t' ! i)
      (drop (row_ptr t' ! i) (col_ind t')) = ?cols i"
  proof (intro allI impI)
    fix i assume i: "i < r"
    from step [OF i] have a: "row_ptr t' ! Suc i - row_ptr t' ! i = length (?cols i)"
      by (simp add: fields)
    from i have b: "row_ptr t' ! i = length (concat (map ?cols [0..<i]))"
      by (simp add: fields nth del: upt_Suc)
    show "take (row_ptr t' ! Suc i - row_ptr t' ! i) (drop (row_ptr t' ! i) (col_ind t')) = ?cols i"
      by (simp only: a) (simp only: b fields(2) concat_segment [OF i])
  qed
  have p_vals: "\<forall>i<r. take (row_ptr t' ! Suc i - row_ptr t' ! i)
      (drop (row_ptr t' ! i) (data t')) = ?vals i"
  proof (intro allI impI)
    fix i assume i: "i < r"
    from step [OF i] have a: "row_ptr t' ! Suc i - row_ptr t' ! i = length (?cols i)"
      by (simp add: fields)
    from i have b: "row_ptr t' ! i = length (concat (map ?cols [0..<i]))"
      by (simp add: fields nth del: upt_Suc)
    have seg: "take (length (?cols i))
        (drop (length (concat (map ?cols [0..<i]))) (concat (map ?vals [0..<r]))) = ?vals i"
      using i by (rule concat_segment_map)
    show "take (row_ptr t' ! Suc i - row_ptr t' ! i) (drop (row_ptr t' ! i) (data t')) = ?vals i"
      by (simp only: a) (simp only: b fields(1) seg)
  qed
  have p_out: "fst (TreeliteModel_SetInput api m name shape input dim) = Inr () \<longleftrightarrow>
       fst (TreeliteAssembleSparseBatch api (data t') (col_ind t') (row_ptr t') r
              (treelite_num_feature m)) = 0"
    unfolding fields by (simp add: val call del: upt_Suc)
  from p_input fields(1,2) p_len p_last p_size p_sorted p_zero p_step p_cols p_vals p_out
  show ?thesis by blast
qed

lemma example_present_columns:
  "present_columns example_dense 3 0 = [0, 2]"
  "present_columns example_dense 3 1 = [2]"
  "present_columns example_dense 3 (Suc 0) = [2]"
  "present_columns example_dense 2 0 = [0]"
  "present_columns example_dense 2 1 = [0]"
  "present_columns example_dense 2 (Suc 0) = [0]"
  "present_columns example_dense 2 2 = [1]"
  by (simp_all add: present_columns_def example_dense_def cells_def isnan_def
      upt_conv_Cons)

lemma upt_small: "[0..<2] = [0, 1]" "[0..<3] = [0, 1, 2]"
  by (simp_all add: upt_conv_Cons)

theorem treelite_sparse_input_witness:
  "(2::int) = 2 \<and> cells [2, 3] 0 = int 2 \<and> (2::nat) < 2 ^ 63 \<and>
   cells [2, 3] 1 = int 3 \<and> (3::nat) < 2 ^ 32 \<and>
   3 \<le> treelite_num_feature example_treelite \<and> (2::nat) * 3 \<le> 2 ^ 64 \<and>
   (\<exists>t. treelite_input
          (snd (TreeliteModel_SetInput example_api example_treelite ''data'' (cells [2, 3])
                  example_dense 2)) = Some t \<and>
        data t = [0x3F800000, 0x40000000, 0x3F000000] \<and>
        col_ind t = [0, 2, 2] \<and>
        length (row_ptr t) = 3 \<and>
        row_ptr t ! 0 = 0 \<and> row_ptr t ! 1 = 2 \<and> row_ptr t ! 2 = 3 \<and>
        last (row_ptr t) = 3 \<and> sorted (row_ptr t))"
proof -
  have h1: "(2::int) = 2" by simp
  have h2: "cells [2, 3] 0 = int 2" by (simp add: cells_def)
  have h3: "(2::nat) < 2 ^ 63" by simp
  have h4: "cells [2, 3] 1 = int 3" by (simp add: cells_def)
  have h5: "(3::nat) < 2 ^ 32" by simp
  have h6: "3 \<le> treelite_num_feature example_treelite" by (simp add: example_treelite_def)
  have h7: "(2::nat) * 3 \<le> 2 ^ 64" by simp
  from treelite_sparse_input [OF h1 h2 h3 h4 h5 h6 h7, of example_api "''data''" example_dense]
  obtain t where t:
    "treelite_input (snd (TreeliteModel_SetInput example_api example_treelite ''data''
        (cells [2, 3]) example_dense 2)) = Some t"
    "data t = concat (map (\<lambda>i. map (\<lambda>j. example_dense (i * 3 + j))
        (present_columns example_dense 3 i)) [0..<2])"
    "col_ind t = concat (map (present_columns example_dense 3) [0..<2])"
    "length (data t) = last (row_ptr t)"
    "length (row_ptr t) = 2 + 1"
    "sorted (row_ptr t)"
    "row_ptr t ! 0 = 0"
    "\<forall>i<2. row_ptr t ! Suc i = row_ptr t ! i + length (present_columns example_dense 3 i)"
    by blast
  have d: "data t = [0x3F800000, 0x40000000, 0x3F000000]"
    unfolding t(2) upt_small by (simp add: example_present_columns) (simp add: example_dense_def cells_def)
  have c: "col_ind t = [0, 2, 2]"
    unfolding t(3) upt_small by (simp add: example_present_columns)
  from t(8) have "row_ptr t ! Suc 0 = row_ptr t ! 0 + length (present_columns example_dense 3 0)"
    by simp
  with t(7) have p1: "row_ptr t ! 1 = 2" by (simp add: example_present_columns)
  from t(8) have "row_ptr t ! Suc 1 = row_ptr t ! 1 + length (present_columns example_dense 3 1)"
    by simp
  with p1 have p2: "row_ptr t ! 2 = 3" by (simp add: example_present_columns numeral_2_eq_2)
  from t(4) d have l: "last (row_ptr t) = 3" by simp
  from h1 h2 h3 h4 h5 h6 h7 t(1) d c t(5) t(7) p1 p2 l t(6) show ?thesis by simp
qed

text \<open>
  The claim as stated fails when the feature count reaches \<open>2^32\<close>: a call with one row
  and \<open>2^32\<close> columns passes the column check, the column count is narrowed to 0, and the
  value \<open>1.0\<close> at row 0, column 0 is not appended.
\<close>

theorem treelite_sparse_input_truncated_counterexample:
  "size_t_of_int (cells [1, 4294967296] 1)
     \<le> treelite_num_feature (example_treelite\<lparr>treelite_num_feature := 4294967296\<rparr>) \<and>
   \<not> isnan (cells [0x3F800000] (0 * 4294967296 + 0)) \<and>
   TreeliteModel_SetInput example_api (example_treelite\<lparr>treelite_num_feature := 4294967296\<rparr>)
       ''data'' (cells [1, 4294967296]) (cells [0x3F800000]) 2 =
     (Inr (),
      example_treelite
        \<lparr>treelite_num_feature := 4294967296,
         treelite_input :=
           Some \<lparr>data = [], col_ind = [], row_ptr = [0, 0], num_row = 1,
                 num_col = 4294967296, handle = Some 7\<rparr>\<rparr>)"
  by (simp add: TreeliteModel_SetInput_def CHECK_SHAPE_def size_t_of_int_def uint32_of_int_def
      cells_def isnan_def example_treelite_def example_api_def Let_def
      TreeliteModel_SetInput_rows.simps TreeliteModel_SetInput_cols.simps)


section \<open>Proofs: Treelite registration, output shape and prediction\<close>

lemma TreeliteModel_SetInput_success:
  assumes "TreeliteModel_SetInput api m name shape input dim = (Inr (), m')"
  shows "\<exists>t h. m' = m\<lparr>treelite_input := Some t\<rparr> \<and>
           num_row t = size_t_of_int (shape 0) \<and>
           num_col t = treelite_num_feature m \<and>
           handle t = Some h \<and>
           dim = 2 \<and>
           size_t_of_int (shape 1) \<le> treelite_num_feature m \<and>
           TreeliteAssembleSparseBatch api (data t) (col_ind t) (row_ptr t) (num_row t)
             (treelite_num_feature m) = (0, h)"
  using assms
  unfolding TreeliteModel_SetInput_def CHECK_SHAPE_def Let_def
  by (auto split: if_splits prod.splits)

lemma example_present_columns_3x2:
  "present_columns example_dense 2 (Suc (Suc 0)) = [Suc 0]"
  by (simp add: present_columns_def example_dense_def cells_def isnan_def upt_conv_Cons)

lemma example_set_input_3x2:
  "TreeliteModel_SetInput example_api example_treelite ''data'' (cells [3, 2]) example_dense 2 =
     (Inr (),
      example_treelite
        \<lparr>treelite_input :=
           Some \<lparr>data = [0x3F800000, 0x40000000, 0x3F000000], col_ind = [0, 0, 1],
                 row_ptr = [0, 1, 2, 3], num_row = 3, num_col = 3, handle = Some 7\<rparr>\<rparr>)"
proof -
  have h: "(2::int) = 2" "cells [3, 2] 0 = int 3" "(3::nat) < 2 ^ 63"
    "cells [3, 2] 1 = int 2" "(2::nat) < 2 ^ 32"
    "2 \<le> treelite_num_feature example_treelite" "(3::nat) * 2 \<le> 2 ^ 64"
    by (simp_all add: cells_def example_treelite_def)
  have vals: "map (\<lambda>j. example_dense (0 * 2 + j)) [0] = [0x3F800000]"
    "map (\<lambda>j. example_dense (Suc 0 * 2 + j)) [0] = [0x40000000]"
    "map (\<lambda>j. example_dense (2 * 2 + j)) [Suc 0] = [0x3F000000]"
    by (simp_all add: example_dense_def cells_def)
  show ?thesis
    unfolding TreeliteModel_SetInput_value [OF h]
    by (simp add: upt_conv_Cons example_present_columns example_present_columns_3x2 Let_def)
       (simp add: example_api_def example_treelite_def example_dense_def cells_def)
qed

text \<open>
  Claim C10. For every \<^verbatim>\<open>TreeliteModel::SetInput\<close> call that succeeds, whatever column
  count the caller gave (it is at most the declared feature count, or the call would have
  failed): the sparse input's \<open>num_col\<close> is the backend's declared feature count, and the
  matrix was registered with the backend under that column count, the handle being the one
  the backend returned. The \<open>name\<close> argument is not inspected: two calls that differ only in
  the name have the same result.
\<close>

theorem treelite_registered_columns:
  "(TreeliteModel_SetInput api m name shape input dim = (Inr (), m') \<longrightarrow>
      (\<exists>t h. treelite_input m' = Some t \<and>
             num_col t = treelite_num_feature m \<and>
             size_t_of_int (shape 1) \<le> treelite_num_feature m \<and>
             handle t = Some h \<and>
             TreeliteAssembleSparseBatch api (data t) (col_ind t) (row_ptr t) (num_row t)
               (treelite_num_feature m) = (0, h))) \<and>
   TreeliteModel_SetInput api m name shape input dim =
     TreeliteModel_SetInput api m name' shape input dim"
proof -
  have "\<exists>t h. treelite_input m' = Some t \<and>
             num_col t = treelite_num_feature m \<and>
             size_t_of_int (shape 1) \<le> treelite_num_feature m \<and>
             handle t = Some h \<and>
             TreeliteAssembleSparseBatch api (data t) (col_ind t) (row_ptr t) (num_row t)
               (treelite_num_feature m) = (0, h)"
    if "TreeliteModel_SetInput api m name shape input dim = (Inr (), m')"
    using TreeliteModel_SetInput_success [OF that] by auto
  moreover have "TreeliteModel_SetInput api m name shape input dim =
     TreeliteModel_SetInput api m name' shape input dim"
    by (simp add: TreeliteModel_SetInput_def)
  ultimately show ?thesis by blast
qed

theorem treelite_registered_columns_witness:
  "TreeliteModel_SetInput example_api example_treelite ''data'' (cells [3, 2]) example_dense 2 =
     (Inr (),
      example_treelite
        \<lparr>treelite_input :=
           Some \<lparr>data = [0x3F800000, 0x40000000, 0x3F000000], col_ind = [0, 0, 1],
                 row_ptr = [0, 1, 2, 3], num_row = 3, num_col = 3, handle = Some 7\<rparr>\<rparr>) \<and>
   (\<exists>t h. treelite_input
            (example_treelite
               \<lparr>treelite_input :=
                  Some \<lparr>data = [0x3F800000, 0x40000000, 0x3F000000], col_ind = [0, 0, 1],
                        row_ptr = [0, 1, 2, 3], num_row = 3, num_col = 3,
                        handle = Some 7\<rparr>\<rparr>) = Some t \<and>
          num_col t = 3 \<and> cells [3, 2] 1 = (2::int) \<and> handle t = Some h \<and>
          TreeliteAssembleSparseBatch example_api (data t) (col_ind t) (row_ptr t) (num_row t) 3
            = (0, h)) \<and>
   TreeliteModel_SetInput example_api example_treelite ''data'' (cells [3, 2]) example_dense 2 =
     TreeliteModel_SetInput example_api example_treelite ''other'' (cells [3, 2]) example_dense 2"
proof -
  have f: "treelite_num_feature example_treelite = 3" by (simp add: example_treelite_def)
  have s: "cells [3, 2] 1 = (2::int)" by (simp add: cells_def)
  let ?m' = "example_treelite
        \<lparr>treelite_input :=
           Some \<lparr>data = [0x3F800000, 0x40000000, 0x3F000000], col_ind = [0, 0, 1],
                 row_ptr = [0, 1, 2, 3], num_row = 3, num_col = 3, handle = Some 7\<rparr>\<rparr>"
  from example_set_input_3x2 s
    treelite_registered_columns [of example_api example_treelite "''data''" "cells [3, 2]"
      example_dense 2 ?m' "''other''", unfolded f]
  show ?thesis by blast
qed

lemma int64_of_size_t_small: "n < 2 ^ 63 \<Longrightarrow> int64_of_size_t n = int n"
proof -
  assume a: "n < 2 ^ 63"
  then have "n < 2 ^ 64" by simp
  then have "n mod 2 ^ 64 = n" by simp
  with a show ?thesis by (simp add: int64_of_size_t_def)
qed

lemma size_t_of_int_small: "n < 2 ^ 63 \<Longrightarrow> size_t_of_int (int n) = n"
proof -
  assume "n < 2 ^ 63"
  then have "int n mod 2 ^ 64 = int n" by simp
  then show ?thesis by (simp add: size_t_of_int_def)
qed

text \<open>
  What \<^verbatim>\<open>TreeliteModel::SetupTreeliteModule\<close> establishes: no input is set, and the
  discovered output width is at most the declared output-group count.
\<close>

lemma SetupTreeliteModule_success:
  assumes "TreeliteModel_SetupTreeliteModule api OMP_NUM_THREADS artifact m = (Inr (), m')"
  shows "treelite_input m' = None \<and>
         treelite_output_size m' \<le> treelite_output_buffer_size m' \<and>
         treelite_output m' = treelite_output m \<and>
         num_inputs m' = 1 \<and> num_outputs m' = 1"
  using assms
  unfolding TreeliteModel_SetupTreeliteModule_def Let_def
  by (auto split: if_splits prod.splits)

text \<open>
  Claim C8. For every Treelite adapter, \<^verbatim>\<open>GetOutputShape\<close> writes two cells and no other.
  The second is always the discovered output width \<^verbatim>\<open>treelite_output_size_\<close>, converted to
  \<^verbatim>\<open>int64_t\<close>, which is the width itself when the width fits that type. The first is \<open>-1\<close>
  while no input has been set, and \<open>r\<close> after a \<^verbatim>\<open>SetInput\<close> with \<open>r\<close> rows has succeeded;
  that call leaves the second cell's value as it was.
\<close>

theorem treelite_output_shape:
  "TreeliteModel_GetOutputShape m index shape 1 = int64_of_size_t (treelite_output_size m) \<and>
   (treelite_output_size m < 2 ^ 63 \<longrightarrow>
      TreeliteModel_GetOutputShape m index shape 1 = int (treelite_output_size m)) \<and>
   (treelite_input m = None \<longrightarrow> TreeliteModel_GetOutputShape m index shape 0 = - 1) \<and>
   (TreeliteModel_SetInput api m name in_shape input dim = (Inr (), m') \<and>
    in_shape 0 = int r \<and> r < 2 ^ 63 \<longrightarrow>
      TreeliteModel_GetOutputShape m' index shape 0 = int r \<and>
      TreeliteModel_GetOutputShape m' index shape 1 =
        TreeliteModel_GetOutputShape m index shape 1) \<and>
   (\<forall>k. k \<noteq> 0 \<and> k \<noteq> 1 \<longrightarrow> TreeliteModel_GetOutputShape m index shape k = shape k)"
proof -
  have second: "TreeliteModel_GetOutputShape m index shape 1 =
      int64_of_size_t (treelite_output_size m)"
    by (simp add: TreeliteModel_GetOutputShape_def)
  have first_none: "TreeliteModel_GetOutputShape m index shape 0 = - 1"
    if "treelite_input m = None"
    using that by (simp add: TreeliteModel_GetOutputShape_def)
  have after: "TreeliteModel_GetOutputShape m' index shape 0 = int r \<and>
      TreeliteModel_GetOutputShape m' index shape 1 =
        TreeliteModel_GetOutputShape m index shape 1"
    if set: "TreeliteModel_SetInput api m name in_shape input dim = (Inr (), m')"
      and rows: "in_shape 0 = int r" "r < 2 ^ 63"
  proof -
    from TreeliteModel_SetInput_success [OF set] obtain t where
      t: "m' = m\<lparr>treelite_input := Some t\<rparr>" "num_row t = size_t_of_int (in_shape 0)"
      by blast
    from t(2) rows have "num_row t = r" by (simp add: size_t_of_int_small)
    with rows t(1) show ?thesis
      by (simp add: TreeliteModel_GetOutputShape_def int64_of_size_t_small)
  qed
  have rest: "\<forall>k. k \<noteq> 0 \<and> k \<noteq> 1 \<longrightarrow> TreeliteModel_GetOutputShape m index shape k = shape k"
    by (simp add: TreeliteModel_GetOutputShape_def)
  from second first_none after rest show ?thesis
    by (simp add: int64_of_size_t_small)
qed

theorem treelite_output_shape_witness:
  "treelite_output_size example_treelite < 2 ^ 63 \<and>
   treelite_input example_treelite = None \<and>
   TreeliteModel_GetOutputShape example_treelite 0 (cells []) 0 = - 1 \<and>
   TreeliteModel_GetOutputShape example_treelite 0 (cells []) 1 = 1 \<and>
   TreeliteModel_SetInput example_api example_treelite ''data'' (cells [3, 2]) example_dense 2 =
     (Inr (),
      example_treelite
        \<lparr>treelite_input :=
           Some \<lparr>data = [0x3F800000, 0x40000000, 0x3F000000], col_ind = [0, 0, 1],
                 row_ptr = [0, 1, 2, 3], num_row = 3, num_col = 3, handle = Some 7\<rparr>\<rparr>) \<and>
   cells [3, 2] 0 = int 3 \<and> (3::nat) < 2 ^ 63 \<and>
   TreeliteModel_GetOutputShape
       (example_treelite
          \<lparr>treelite_input :=
             Some \<lparr>data = [0x3F800000, 0x40000000, 0x3F000000], col_ind = [0, 0, 1],
                   row_ptr = [0, 1, 2, 3], num_row = 3, num_col = 3, handle = Some 7\<rparr>\<rparr>)
       0 (cells []) 0 = 3 \<and>
   TreeliteModel_GetOutputShape
       (example_treelite
          \<lparr>treelite_input :=
             Some \<lparr>data = [0x3F800000, 0x40000000, 0x3F000000], col_ind = [0, 0, 1],
                   row_ptr = [0, 1, 2, 3], num_row = 3, num_col = 3, handle = Some 7\<rparr>\<rparr>)
       0 (cells []) 1 = 1"
proof -
  let ?m' = "example_treelite
        \<lparr>treelite_input :=
           Some \<lparr>data = [0x3F800000, 0x40000000, 0x3F000000], col_ind = [0, 0, 1],
                 row_ptr = [0, 1, 2, 3], num_row = 3, num_col = 3, handle = Some 7\<rparr>\<rparr>"
  have w: "treelite_output_size example_treelite = 1" by (simp add: example_treelite_def)
  have n: "treelite_input example_treelite = None" by (simp add: example_treelite_def)
  have s: "cells [3, 2] 0 = int 3" by (simp add: cells_def)
  from w n s example_set_input_3x2
    treelite_output_shape [of example_treelite 0 "cells []" example_api "''data''"
      "cells [3, 2]" example_dense 2 ?m' 3]
  show ?thesis by simp
qed

lemma example_setup:
  "TreeliteModel_SetupTreeliteModule example_api None
       \<lparr>model_lib = ''model.so'', ver_json = []\<rparr> example_treelite_new =
     (Inr (), example_treelite)"
  by (simp add: TreeliteModel_SetupTreeliteModule_def example_api_def example_treelite_new_def
      example_treelite_def Let_def)

lemma TreeliteModel_SetInput_rejected:
  assumes "dim \<noteq> 2 \<or> \<not> size_t_of_int (shape 1) \<le> treelite_num_feature m"
  shows "\<exists>msg. TreeliteModel_SetInput api m name shape input dim = (Inl (Fatal msg), m)"
  using assms by (auto simp: TreeliteModel_SetInput_def CHECK_SHAPE_def)

text \<open>
  What \<^verbatim>\<open>TreeliteModel::Run\<close> does in each state of \<^verbatim>\<open>treelite_input_\<close>. While that is null,
  \<^verbatim>\<open>Run()\<close> fails with a fatal log whatever the backend is, and leaves the adapter, its
  output buffer included, as it was; it is null when construction has succeeded, and a
  \<^verbatim>\<open>SetInput\<close> call that fails its dimension or column check leaves it null. When it holds
  an input \<open>t\<close>, \<^verbatim>\<open>Run()\<close> first resizes the output buffer to the \<^verbatim>\<open>size_t\<close> product of the
  rows and the declared output-group count, which is their product whenever that fits a
  \<^verbatim>\<open>size_t\<close>, and then invokes batch prediction on the handle of \<open>t\<close> with the resized
  buffer (and the arguments 1, 0, 0 of the source); the buffer keeps that size.
\<close>

lemma TreeliteModel_Run_result:
  "(treelite_input m = None \<longrightarrow>
      (\<exists>msg. \<forall>api'. TreeliteModel_Run api' m = (Inl (Fatal msg), m))) \<and>
   (TreeliteModel_SetupTreeliteModule api OMP_NUM_THREADS artifact m0 = (Inr (), m) \<longrightarrow>
      treelite_input m = None) \<and>
   (treelite_input m = None \<and>
    (dim \<noteq> 2 \<or> \<not> size_t_of_int (shape 1) \<le> treelite_num_feature m) \<longrightarrow>
      treelite_input (snd (TreeliteModel_SetInput api m name shape input dim)) = None) \<and>
   (treelite_input m = Some t \<longrightarrow>
      (\<exists>buffer rc out_result out_result_size.
         buffer = resize (treelite_output m)
                    ((num_row t * treelite_output_buffer_size m) mod 2 ^ 64) 0 \<and>
         length buffer = (num_row t * treelite_output_buffer_size m) mod 2 ^ 64 \<and>
         TreelitePredictorPredictBatch api (treelite_model m) (handle t) 1 0 0 buffer
           = (rc, out_result, out_result_size) \<and>
         TreeliteModel_Run api m =
           (if rc \<noteq> 0 then Inl (Fatal (TreeliteGetLastError api)) else Inr (),
            m\<lparr>treelite_output := map out_result [0..<length buffer]\<rparr>))) \<and>
   (treelite_input m = Some t \<and> num_row t * treelite_output_buffer_size m < 2 ^ 64 \<longrightarrow>
      length (treelite_output (snd (TreeliteModel_Run api m)))
        = num_row t * treelite_output_buffer_size m)"
proof -
  let ?n = "(num_row t * treelite_output_buffer_size m) mod 2 ^ 64"
  let ?buffer = "resize (treelite_output m) ?n 0"
  have len: "length ?buffer = ?n"
    by (simp add: resize_def)
  have none: "\<exists>msg. \<forall>api'. TreeliteModel_Run api' m = (Inl (Fatal msg), m)"
    if "treelite_input m = None"
    using that by (simp add: TreeliteModel_Run_def)
  have fresh: "treelite_input m = None"
    if "TreeliteModel_SetupTreeliteModule api OMP_NUM_THREADS artifact m0 = (Inr (), m)"
    using SetupTreeliteModule_success [OF that] by simp
  have rejected: "treelite_input (snd (TreeliteModel_SetInput api m name shape input dim)) = None"
    if "treelite_input m = None"
      "dim \<noteq> 2 \<or> \<not> size_t_of_int (shape 1) \<le> treelite_num_feature m"
    using TreeliteModel_SetInput_rejected [of dim shape m api name input] that by auto
  obtain rc out_result out_result_size where call:
    "TreelitePredictorPredictBatch api (treelite_model m) (handle t) 1 0 0 ?buffer
       = (rc, out_result, out_result_size)"
    by (cases "TreelitePredictorPredictBatch api (treelite_model m) (handle t) 1 0 0 ?buffer")
  have run: "TreeliteModel_Run api m =
           (if rc \<noteq> 0 then Inl (Fatal (TreeliteGetLastError api)) else Inr (),
            m\<lparr>treelite_output := map out_result [0..<length ?buffer]\<rparr>)"
    if "treelite_input m = Some t"
    using that call unfolding TreeliteModel_Run_def Let_def by simp
  have some: "\<exists>buffer rc out_result out_result_size.
         buffer = ?buffer \<and> length buffer = ?n \<and>
         TreelitePredictorPredictBatch api (treelite_model m) (handle t) 1 0 0 buffer
           = (rc, out_result, out_result_size) \<and>
         TreeliteModel_Run api m =
           (if rc \<noteq> 0 then Inl (Fatal (TreeliteGetLastError api)) else Inr (),
            m\<lparr>treelite_output := map out_result [0..<length buffer]\<rparr>)"
    if "treelite_input m = Some t"
    using run [OF that] call len by blast
  have size: "length (treelite_output (snd (TreeliteModel_Run api m)))
        = num_row t * treelite_output_buffer_size m"
    if "treelite_input m = Some t" "num_row t * treelite_output_buffer_size m < 2 ^ 64"
    using run [OF that(1)] that(2) by (simp add: resize_def)
  from none fresh rejected some size show ?thesis by blast
qed

lemma TreeliteModel_Run_result_example:
  "TreeliteModel_SetupTreeliteModule example_api None
       \<lparr>model_lib = ''model.so'', ver_json = []\<rparr> example_treelite_new =
     (Inr (), example_treelite) \<and>
   treelite_input example_treelite = None \<and>
   (\<exists>msg. \<forall>api'. TreeliteModel_Run api' example_treelite = (Inl (Fatal msg), example_treelite)) \<and>
   (3::int) \<noteq> 2 \<and>
   treelite_input (snd (TreeliteModel_SetInput example_api example_treelite ''data''
                          (cells [3, 2]) example_dense 3)) = None \<and>
   treelite_input
     (example_treelite
        \<lparr>treelite_input :=
           Some \<lparr>data = [0x3F800000, 0x40000000, 0x3F000000], col_ind = [0, 0, 1],
                 row_ptr = [0, 1, 2, 3], num_row = 3, num_col = 3, handle = Some 7\<rparr>\<rparr>)
     = Some \<lparr>data = [0x3F800000, 0x40000000, 0x3F000000], col_ind = [0, 0, 1],
             row_ptr = [0, 1, 2, 3], num_row = 3, num_col = 3, handle = Some 7\<rparr> \<and>
   (3::nat) * 2 < 2 ^ 64 \<and>
   length (treelite_output (snd (TreeliteModel_Run example_api
     (example_treelite
        \<lparr>treelite_input :=
           Some \<lparr>data = [0x3F800000, 0x40000000, 0x3F000000], col_ind = [0, 0, 1],
                 row_ptr = [0, 1, 2, 3], num_row = 3, num_col = 3,
                 handle = Some 7\<rparr>\<rparr>)))) = 6"
proof -
  let ?t = "\<lparr>data = [0x3F800000, 0x40000000, 0x3F000000], col_ind = [0, 0, 1],
             row_ptr = [0, 1, 2, 3], num_row = 3, num_col = 3, handle = Some (7::nat)\<rparr>"
  let ?m' = "example_treelite\<lparr>treelite_input := Some ?t\<rparr>"
  let ?artifact = "\<lparr>model_lib = ''model.so'', ver_json = []\<rparr>"
  have i: "treelite_input ?m' = Some ?t" by simp
  have b: "treelite_output_buffer_size ?m' = 2" by (simp add: example_treelite_def)
  note fresh = TreeliteModel_Run_result [of example_treelite example_api None ?artifact example_treelite_new
      3 "cells [3, 2]" "''data''" example_dense ?t]
  from example_setup fresh have n: "treelite_input example_treelite = None" by blast
  from example_setup n i b fresh
    TreeliteModel_Run_result [of ?m' example_api None ?artifact example_treelite_new
      3 "cells [3, 2]" "''data''" example_dense ?t]
  show ?thesis by simp
qed

text \<open>
  Claim C7. \<^verbatim>\<open>Run()\<close> called without a prior successful \<^verbatim>\<open>SetInput()\<close> is to fail and never
  produce output. The code does not: \<^verbatim>\<open>SetInput\<close> stores the new sparse input in
  \<^verbatim>\<open>treelite_input_\<close> before it registers it with the backend, so after a call that the
  backend refuses, which is no successful \<^verbatim>\<open>SetInput\<close>, the guard \<^verbatim>\<open>CHECK(treelite_input_)\<close>
  of \<^verbatim>\<open>Run()\<close> passes. On a freshly constructed adapter with three features, a 3 by 2
  input and a backend that refuses the registration, \<^verbatim>\<open>SetInput\<close> fails and the following
  \<^verbatim>\<open>Run()\<close> returns normally: the backend was invoked, with a handle that was never set,
  and the output buffer holds six cells.
\<close>

theorem treelite_run_after_refused_input:
  "TreeliteModel_SetupTreeliteModule example_api_rejecting None
       \<lparr>model_lib = ''model.so'', ver_json = []\<rparr> example_treelite_new =
     (Inr (), example_treelite) \<and>
   TreeliteModel_SetInput example_api_rejecting example_treelite ''data'' (cells [3, 2])
       example_dense 2 =
     (Inl (Fatal ''out of memory''),
      example_treelite
        \<lparr>treelite_input :=
           Some \<lparr>data = [0x3F800000, 0x40000000, 0x3F000000], col_ind = [0, 0, 1],
                 row_ptr = [0, 1, 2, 3], num_row = 3, num_col = 3, handle = None\<rparr>\<rparr>) \<and>
   TreeliteModel_Run example_api_rejecting
       (example_treelite
          \<lparr>treelite_input :=
             Some \<lparr>data = [0x3F800000, 0x40000000, 0x3F000000], col_ind = [0, 0, 1],
                   row_ptr = [0, 1, 2, 3], num_row = 3, num_col = 3, handle = None\<rparr>\<rparr>) =
     (Inr (),
      example_treelite
        \<lparr>treelite_input :=
           Some \<lparr>data = [0x3F800000, 0x40000000, 0x3F000000], col_ind = [0, 0, 1],
                 row_ptr = [0, 1, 2, 3], num_row = 3, num_col = 3, handle = None\<rparr>,
         treelite_output := [0x3F000000, 0x3F800000, 0, 0, 0, 0]\<rparr>)"
proof -
  have new: "TreeliteModel_SetupTreeliteModule example_api_rejecting None
       \<lparr>model_lib = ''model.so'', ver_json = []\<rparr> example_treelite_new =
     (Inr (), example_treelite)"
    by (simp add: TreeliteModel_SetupTreeliteModule_def example_api_rejecting_def
        example_api_def example_treelite_new_def example_treelite_def Let_def)
  have h: "(2::int) = 2" "cells [3, 2] 0 = int 3" "(3::nat) < 2 ^ 63"
    "cells [3, 2] 1 = int 2" "(2::nat) < 2 ^ 32"
    "2 \<le> treelite_num_feature example_treelite" "(3::nat) * 2 \<le> 2 ^ 64"
    by (simp_all add: cells_def example_treelite_def)
  have set: "TreeliteModel_SetInput example_api_rejecting example_treelite ''data'' (cells [3, 2])
       example_dense 2 =
     (Inl (Fatal ''out of memory''),
      example_treelite
        \<lparr>treelite_input :=
           Some \<lparr>data = [0x3F800000, 0x40000000, 0x3F000000], col_ind = [0, 0, 1],
                 row_ptr = [0, 1, 2, 3], num_row = 3, num_col = 3, handle = None\<rparr>\<rparr>)"
    unfolding TreeliteModel_SetInput_value [OF h]
    by (simp add: upt_conv_Cons example_present_columns example_present_columns_3x2 Let_def)
       (simp add: example_api_rejecting_def example_api_def example_treelite_def
          example_dense_def cells_def)
  have run: "TreeliteModel_Run example_api_rejecting
       (example_treelite
          \<lparr>treelite_input :=
             Some \<lparr>data = [0x3F800000, 0x40000000, 0x3F000000], col_ind = [0, 0, 1],
                   row_ptr = [0, 1, 2, 3], num_row = 3, num_col = 3, handle = None\<rparr>\<rparr>) =
     (Inr (),
      example_treelite
        \<lparr>treelite_input :=
           Some \<lparr>data = [0x3F800000, 0x40000000, 0x3F000000], col_ind = [0, 0, 1],
                 row_ptr = [0, 1, 2, 3], num_row = 3, num_col = 3, handle = None\<rparr>,
         treelite_output := [0x3F000000, 0x3F800000, 0, 0, 0, 0]\<rparr>)"
    by (simp add: TreeliteModel_Run_def example_api_rejecting_def example_api_def
        example_treelite_def resize_def cells_def Let_def upt_conv_Cons)
  from new set run show ?thesis by simp
qed


end
